theory Spec2Isabelle
  imports Complex_Main "HOL-Library.Word" "HOL-Library.AList"
begin

unbundle bit_operations_syntax

section \<open>JavaScript values and strings\<close>

text \<open>
  The development embeds the asset loaders of \<^verbatim>\<open>@paperflow/core\<close>, the utility-class
  parser and the React-to-IR converter of \<^verbatim>\<open>@paperflow/react\<close>.

  Conventions. A JavaScript string is a \<^typ>\<open>string\<close>, one \<^typ>\<open>char\<close> per code unit, so
  code units range over 0..255. A finite number is an exact \<^typ>\<open>rat\<close> (rounding of
  doubles and the infinities are not represented, so arithmetic is exact where the code
  rounds), \<open>NaN\<close> is a value of its own. A plain object is an association list in
  insertion order, read by its first entry for a key; that the engine enumerates keys
  which are array indices before the others is not represented. A
  function value that the code only ever calls without arguments is represented by what the
  call yields. A member that a lookup table inherits from \<^verbatim>\<open>Object.prototype\<close> is
  \<open>VInherited\<close> of its name.
\<close>

datatype jsval =
    VUndef
  | VNull
  | VBool bool
  | VNum rat
  | VNaN
  | VStr string
  | VArrayBuffer "8 word list"
  | VUint8Array "8 word list"
  | VFun "jsval option"
  | VObj "(string \<times> jsval) list"
  | VArr "jsval list"
  | VInherited string

text \<open>\<^verbatim>\<open>if (v)\<close>: every value is truthy but the six falsy ones.\<close>

fun truthy :: "jsval \<Rightarrow> bool" where
  "truthy VUndef = False"
| "truthy VNull = False"
| "truthy (VBool b) = b"
| "truthy (VNum r) = (r \<noteq> 0)"
| "truthy VNaN = False"
| "truthy (VStr s) = (s \<noteq> [])"
| "truthy _ = True"

text \<open>
  \<^verbatim>\<open>a === b\<close> on values that are no objects: \<open>NaN\<close> equals nothing, itself included.
\<close>

definition strictEquals :: "jsval \<Rightarrow> jsval \<Rightarrow> bool" where
  "strictEquals a b = (a = b \<and> a \<noteq> VNaN)"

text \<open>
  Setting a property keeps an existing key at its place and appends a new one. Reading a
  lookup table (a \<^verbatim>\<open>Record<string, T>\<close> object literal) finds an own key, else a member
  inherited from \<^verbatim>\<open>Object.prototype\<close>, else \<^verbatim>\<open>undefined\<close>. \<open>ownEntries\<close> is
  \<^verbatim>\<open>Object.entries\<close>: each key once. \<open>assignAll\<close> is what a spread \<^verbatim>\<open>...source\<close> in an
  object literal does to the object built so far.
\<close>

definition setProp :: "string \<Rightarrow> jsval \<Rightarrow> (string \<times> jsval) list \<Rightarrow> (string \<times> jsval) list" where
  "setProp k v obj = AList.update k v obj"

definition objectPrototypeKeys :: "string list" where
  "objectPrototypeKeys =
     [''constructor'', ''__defineGetter__'', ''__defineSetter__'', ''hasOwnProperty'',
      ''__lookupGetter__'', ''__lookupSetter__'', ''isPrototypeOf'', ''propertyIsEnumerable'',
      ''toString'', ''valueOf'', ''__proto__'', ''toLocaleString'']"

definition recordGet :: "(string \<times> jsval) list \<Rightarrow> string \<Rightarrow> jsval" where
  "recordGet tbl key =
     (case map_of tbl key of
        Some v \<Rightarrow> v
      | None \<Rightarrow> if key \<in> set objectPrototypeKeys then VInherited key else VUndef)"

text \<open>
  Reading a named property of a value that is not \<^verbatim>\<open>null\<close> or \<^verbatim>\<open>undefined\<close>; the
  names read this way (\<^verbatim>\<open>fontSize\<close>, \<^verbatim>\<open>width\<close>, \<^verbatim>\<open>top\<close> and the like) are no
  members of a prototype, so only an object's own entry can answer.
\<close>

fun getProp :: "jsval \<Rightarrow> string \<Rightarrow> jsval" where
  "getProp (VObj entries) k = (case map_of entries k of Some v \<Rightarrow> v | None \<Rightarrow> VUndef)"
| "getProp _ k = VUndef"

definition ownEntries :: "(string \<times> jsval) list \<Rightarrow> (string \<times> jsval) list" where
  "ownEntries obj = AList.clearjunk obj"

definition assignAll ::
  "(string \<times> jsval) list \<Rightarrow> (string \<times> jsval) list \<Rightarrow> (string \<times> jsval) list" where
  "assignAll target source = fold (\<lambda>(k, v). setProp k v) (ownEntries source) target"

text \<open>\<^verbatim>\<open>String.prototype.startsWith\<close> and \<^verbatim>\<open>String.prototype.includes\<close>.\<close>

definition startsWith :: "string \<Rightarrow> string \<Rightarrow> bool" where
  "startsWith s p = (take (length p) s = p)"

fun includes_of :: "'a list \<Rightarrow> 'a list \<Rightarrow> bool" where
  "includes_of [] p = (p = [])"
| "includes_of (c # s) p = (take (length p) (c # s) = p \<or> includes_of s p)"

text \<open>Decimal and base-36 rendering of a natural number (\<^verbatim>\<open>toString(36)\<close>).\<close>

definition digitChar :: "nat \<Rightarrow> char" where
  "digitChar d = (''0123456789abcdefghijklmnopqrstuvwxyz'' ! d)"

fun toStringRadix :: "nat \<Rightarrow> nat \<Rightarrow> string" where
  "toStringRadix b n =
     (if b < 2 \<or> n < b then [digitChar n]
      else toStringRadix b (n div b) @ [digitChar (n mod b)])"

declare toStringRadix.simps [simp del]

text \<open>
  White space as \<^verbatim>\<open>\s\<close> and \<^verbatim>\<open>trim\<close> see it, among the code units 0..255: tab, line
  feed, vertical tab, form feed, carriage return, space and no-break space.
\<close>

definition isSpace :: "char \<Rightarrow> bool" where
  "isSpace c = ((of_char c :: nat) \<in> set [9, 10, 11, 12, 13, 32, 160])"

definition trim :: "string \<Rightarrow> string" where
  "trim s = rev (dropWhile isSpace (rev (dropWhile isSpace s)))"

text \<open>
  \<^verbatim>\<open>s.split(/\s+/)\<close>: the pieces between maximal runs of white space, an empty piece
  where the string starts or ends with white space. The flag says that the scan is
  inside such a run; \<open>cur\<close> is the piece read so far, reversed.
\<close>

fun splitRuns :: "bool \<Rightarrow> string \<Rightarrow> string \<Rightarrow> string list" where
  "splitRuns inRun cur [] = [rev cur]"
| "splitRuns inRun cur (c # cs) =
     (if isSpace c then (if inRun then splitRuns True cur cs else rev cur # splitRuns True [] cs)
      else splitRuns False (c # cur) cs)"

definition splitWhitespace :: "string \<Rightarrow> string list" where
  "splitWhitespace s = splitRuns False [] s"

text \<open>\<^verbatim>\<open>s.split(sep)\<close> for a separator of one character, and \<^verbatim>\<open>parts.join(sep)\<close>.\<close>

fun splitAcc :: "char \<Rightarrow> string \<Rightarrow> string \<Rightarrow> string list" where
  "splitAcc sep cur [] = [rev cur]"
| "splitAcc sep cur (c # cs) =
     (if c = sep then rev cur # splitAcc sep [] cs else splitAcc sep (c # cur) cs)"

definition splitChar :: "char \<Rightarrow> string \<Rightarrow> string list" where
  "splitChar sep s = splitAcc sep [] s"

fun joinWith :: "string \<Rightarrow> string list \<Rightarrow> string" where
  "joinWith sep [] = []"
| "joinWith sep [p] = p"
| "joinWith sep (p # q # ps) = p @ sep @ joinWith sep (q # ps)"

text \<open>\<^verbatim>\<open>s.replace(/["']/g, '')\<close>.\<close>

definition stripQuotes :: "string \<Rightarrow> string" where
  "stripQuotes s = filter (\<lambda>c. c \<noteq> CHR 0x22 \<and> c \<noteq> CHR 0x27) s"

text \<open>
  \<^verbatim>\<open>toLowerCase\<close> and \<^verbatim>\<open>toUpperCase\<close> on code units 0..255. The sharp s becomes
  \<^verbatim>\<open>SS\<close>; the two letters whose capital lies beyond code unit 255 (the micro sign and y
  with diaeresis) are left as they are.
\<close>

definition toLowerChar :: "char \<Rightarrow> char" where
  "toLowerChar c =
     (let n = (of_char c :: nat) in
      if (65 \<le> n \<and> n \<le> 90) \<or> (192 \<le> n \<and> n \<le> 222 \<and> n \<noteq> 215)
      then char_of (n + 32) else c)"

definition toLowerCase :: "string \<Rightarrow> string" where
  "toLowerCase s = map toLowerChar s"

definition toUpperChar :: "char \<Rightarrow> string" where
  "toUpperChar c =
     (let n = (of_char c :: nat) in
      if n = 223 then ''SS''
      else if (97 \<le> n \<and> n \<le> 122) \<or> (224 \<le> n \<and> n \<le> 254 \<and> n \<noteq> 247)
      then [char_of (n - 32)] else [c])"

definition toUpperCase :: "string \<Rightarrow> string" where
  "toUpperCase s = concat (map toUpperChar s)"

text \<open>
  \<^verbatim>\<open>parseInt(s, 10)\<close>: leading white space, an optional sign, then the longest run
  of decimal digits; \<open>NaN\<close> when there is none. The value is exact, where the code has
  the nearest double (they differ from 2^53 on).
\<close>

definition isDigit :: "char \<Rightarrow> bool" where
  "isDigit c = (48 \<le> (of_char c :: nat) \<and> (of_char c :: nat) \<le> 57)"

definition digitsValue :: "string \<Rightarrow> nat" where
  "digitsValue ds = foldl (\<lambda>acc c. 10 * acc + (of_char c - 48)) 0 ds"

definition parseInt10 :: "string \<Rightarrow> jsval" where
  "parseInt10 s =
     (let t = dropWhile isSpace s;
          negative = (t \<noteq> [] \<and> hd t = CHR ''-'');
          u = (if t \<noteq> [] \<and> (hd t = CHR ''-'' \<or> hd t = CHR ''+'') then tl t else t);
          ds = takeWhile isDigit u
      in if ds = [] then VNaN
         else VNum (if negative then - of_nat (digitsValue ds) else of_nat (digitsValue ds)))"

section \<open>The runtime\<close>

text \<open>
  What the code asks of the platform and what this development takes as given:
  \<^verbatim>\<open>fetch\<close> (\<open>None\<close> when the request itself fails), \<^verbatim>\<open>atob\<close> (\<open>None\<close> when it
  throws), \<^verbatim>\<open>Number(s)\<close> and \<^verbatim>\<open>parseFloat(s)\<close> on a string, the conversion of a value
  to a string (\<^verbatim>\<open>String(v)\<close>, also inside a template literal), and the clock.
\<close>

datatype http_response = Response (ok: bool) (status: nat) (body: "8 word list")

record runtime =
  fetch :: "string \<Rightarrow> http_response option"
  atob :: "string \<Rightarrow> string option"
  toNumber :: "string \<Rightarrow> jsval"
  parseFloat :: "string \<Rightarrow> jsval"
  toString :: "jsval \<Rightarrow> string"
  now :: nat

text \<open>
  A runtime without network to run the model on examples. Its conversions agree with the
  platform on strings of decimal digits and on natural numbers.
\<close>

definition decimalNumber :: "string \<Rightarrow> jsval" where
  "decimalNumber s =
     (if s \<noteq> [] \<and> list_all isDigit s then VNum (of_nat (digitsValue s)) else VNaN)"

definition exampleToString :: "jsval \<Rightarrow> string" where
  "exampleToString v =
     (case v of
        VStr s \<Rightarrow> s
      | VNum r \<Rightarrow> toStringRadix 10 (nat \<lfloor>r\<rfloor>)
      | _ \<Rightarrow> ''?'')"

definition exampleRuntime :: runtime where
  "exampleRuntime =
     \<lparr>fetch = (\<lambda>url. None), atob = (\<lambda>s. None), toNumber = decimalNumber,
      parseFloat = decimalNumber, toString = exampleToString, now = 0\<rparr>"

section \<open>Errors\<close>

text \<open>The closed enumeration \<^verbatim>\<open>ErrorCode\<close> of \<^verbatim>\<open>errors.ts\<close>.\<close>

datatype error_code =
    FONT_LOAD_FAILED | FONT_NOT_FOUND | INVALID_FONT_FORMAT | FONT_FETCH_ERROR
  | IMAGE_LOAD_FAILED | IMAGE_NOT_FOUND | INVALID_IMAGE_FORMAT | IMAGE_FETCH_ERROR
  | LOCAL_FILE_NOT_SUPPORTED | INVALID_IMAGE_SOURCE | UNKNOWN_IMAGE_FORMAT
  | INVALID_BASE64_IMAGE
  | RENDER_FAILED | INVALID_DOCUMENT | NO_PAGES | UNKNOWN_ENGINE
  | UNKNOWN_ERROR

text \<open>
  What a call can throw: a \<^verbatim>\<open>PaperFlowError\<close> with its code, a \<^verbatim>\<open>TypeError\<close> of the
  language, the \<^verbatim>\<open>DOMException\<close> of \<^verbatim>\<open>atob\<close>, or the rejection of a user-supplied
  producer.
\<close>

datatype error =
    PaperFlowError error_code
  | TypeError
  | DOMException
  | Rejected

section \<open>Image loader (\<^verbatim>\<open>images/loader.ts\<close>)\<close>

datatype ImageFormat = PNG | JPEG | WEBP | GIF | SVG

record LoadedImage =
  image_id :: string
  image_data :: "8 word list"
  image_format :: ImageFormat

text \<open>Reading a typed array: an index past the end reads \<^verbatim>\<open>undefined\<close>.\<close>

definition byteAt :: "8 word list \<Rightarrow> nat \<Rightarrow> 8 word option" where
  "byteAt arr i = (if i < length arr then Some (arr ! i) else None)"

definition asciiBytes :: "string \<Rightarrow> 8 word list" where
  "asciiBytes s = map (\<lambda>c. of_nat (of_char c)) s"

text \<open>
  \<^verbatim>\<open>new TextDecoder().decode(arr.slice(0, 100))\<close> followed by \<^verbatim>\<open>includes\<close> of an ASCII
  needle. UTF-8 decoding maps every byte below 0x80 to its own character and every maximal
  run of other bytes to at least one non-ASCII character (but for a leading byte-order
  mark, which is dropped), so the decoded text includes the needle exactly when the
  bytes include the needle's bytes.
\<close>

definition decodedIncludes :: "8 word list \<Rightarrow> string \<Rightarrow> bool" where
  "decodedIncludes arr needle = includes_of (take 100 arr) (asciiBytes needle)"

definition detectImageFormat :: "8 word list \<Rightarrow> error + ImageFormat" where
  "detectImageFormat arr =
     (if byteAt arr 0 = Some 0x89 \<and> byteAt arr 1 = Some 0x50 \<and>
         byteAt arr 2 = Some 0x4e \<and> byteAt arr 3 = Some 0x47 then Inr PNG
      else if byteAt arr 0 = Some 0xff \<and> byteAt arr 1 = Some 0xd8 \<and>
         byteAt arr 2 = Some 0xff then Inr JPEG
      else if byteAt arr 0 = Some 0x52 \<and> byteAt arr 1 = Some 0x49 \<and>
         byteAt arr 2 = Some 0x46 \<and> byteAt arr 3 = Some 0x46 \<and>
         byteAt arr 8 = Some 0x57 \<and> byteAt arr 9 = Some 0x45 \<and>
         byteAt arr 10 = Some 0x42 \<and> byteAt arr 11 = Some 0x50 then Inr WEBP
      else if byteAt arr 0 = Some 0x47 \<and> byteAt arr 1 = Some 0x49 \<and>
         byteAt arr 2 = Some 0x46 \<and> byteAt arr 3 = Some 0x38 then Inr GIF
      else if decodedIncludes arr ''<?xml'' \<or> decodedIncludes arr ''<svg'' then Inr SVG
      else Inl (PaperFlowError UNKNOWN_IMAGE_FORMAT))"

definition normalizeFormat :: "string \<Rightarrow> ImageFormat" where
  "normalizeFormat format =
     (let normalized = toLowerCase format in
      if normalized = ''png'' then PNG
      else if normalized = ''jpg'' \<or> normalized = ''jpeg'' then JPEG
      else if normalized = ''webp'' then WEBP
      else if normalized = ''gif'' then GIF
      else if normalized = ''svg'' \<or> normalized = ''svg+xml'' then SVG
      else PNG)"

text \<open>
  \<^verbatim>\<open>generateImageId\<close>: \<^verbatim>\<open>hash = ((hash << 5) - hash) + c; hash = hash & hash\<close> keeps the
  low 32 bits, read as a signed integer; the id renders its absolute value in base 36.
\<close>

definition hashStep :: "32 word \<Rightarrow> 32 word \<Rightarrow> 32 word" where
  "hashStep c hash = (push_bit 5 hash - hash) + c"

definition hashText :: "32 word list \<Rightarrow> string" where
  "hashText cs = toStringRadix 36 (nat \<bar>sint (fold hashStep cs 0)\<bar>)"

definition generateImageId_string :: "string \<Rightarrow> string" where
  "generateImageId_string source =
     ''img_'' @ hashText (map (\<lambda>c. of_nat (of_char c)) (take 1000 source))"

definition generateImageId_buffer :: "8 word list \<Rightarrow> string" where
  "generateImageId_buffer arr =
     ''img_'' @ hashText (map ucast (take 100 arr)) @ ''_'' @ toStringRadix 10 (length arr)"

definition loadFromBuffer :: "8 word list \<Rightarrow> error + LoadedImage" where
  "loadFromBuffer buffer =
     (case detectImageFormat buffer of
        Inl e \<Rightarrow> Inl e
      | Inr format \<Rightarrow>
          Inr \<lparr>image_id = generateImageId_buffer buffer, image_data = buffer,
               image_format = format\<rparr>)"

text \<open>
  The pattern \<^verbatim>\<open>/^data:image\/(\w+);base64,(.+)$/\<close>. After the literal prefix the group
  \<^verbatim>\<open>\w+\<close> must end where \<^verbatim>\<open>;\<close> stands, and \<^verbatim>\<open>;\<close> is no word character, so
  the group is the longest run of word characters; \<^verbatim>\<open>.+$\<close> takes the non-empty rest,
  which holds no line terminator.
\<close>

definition isWordChar :: "char \<Rightarrow> bool" where
  "isWordChar c =
     (let n = (of_char c :: nat) in
      (48 \<le> n \<and> n \<le> 57) \<or> (65 \<le> n \<and> n \<le> 90) \<or> (97 \<le> n \<and> n \<le> 122) \<or> n = 95)"

definition isLineTerminator :: "char \<Rightarrow> bool" where
  "isLineTerminator c = (c = CHR 0x0A \<or> c = CHR 0x0D)"

definition matchDataUri :: "string \<Rightarrow> (string \<times> string) option" where
  "matchDataUri dataUri =
     (if startsWith dataUri ''data:image/'' then
        (let rest = drop 11 dataUri;
             formatStr = takeWhile isWordChar rest;
             after = dropWhile isWordChar rest;
             base64 = drop 8 after
         in if formatStr \<noteq> [] \<and> startsWith after '';base64,'' \<and> base64 \<noteq> [] \<and>
               filter isLineTerminator base64 = []
            then Some (formatStr, base64) else None)
      else None)"

definition loadFromDataUri :: "runtime \<Rightarrow> string \<Rightarrow> error + LoadedImage" where
  "loadFromDataUri rt dataUri =
     (case matchDataUri dataUri of
        None \<Rightarrow> Inl (PaperFlowError INVALID_BASE64_IMAGE)
      | Some (formatStr, base64) \<Rightarrow>
          (case atob rt base64 of
             None \<Rightarrow> Inl DOMException
           | Some binaryString \<Rightarrow>
               Inr \<lparr>image_id = generateImageId_string dataUri,
                    image_data = map (\<lambda>c. of_nat (of_char c)) binaryString,
                    image_format = normalizeFormat formatStr\<rparr>))"

text \<open>
  The module state: the URL-keyed \<^verbatim>\<open>imageCache\<close>, and the requests issued so far, which
  the code does not keep but which the model records to speak about fetches.
\<close>

record image_state =
  imageCache :: "(string \<times> LoadedImage) list"
  requests :: "string list"

definition loadFromUrl ::
  "runtime \<Rightarrow> image_state \<Rightarrow> string \<Rightarrow> (error + LoadedImage) \<times> image_state" where
  "loadFromUrl rt st url =
     (case map_of (imageCache st) url of
        Some cached \<Rightarrow> (Inr cached, st)
      | None \<Rightarrow>
          (let st1 = st\<lparr>requests := requests st @ [url]\<rparr> in
           case fetch rt url of
             None \<Rightarrow> (Inl (PaperFlowError IMAGE_FETCH_ERROR), st1)
           | Some response \<Rightarrow>
               if \<not> ok response then (Inl (PaperFlowError IMAGE_LOAD_FAILED), st1)
               else (case detectImageFormat (body response) of
                       Inl e \<Rightarrow> (Inl e, st1)
                     | Inr format \<Rightarrow>
                         (let image = \<lparr>image_id = generateImageId_string url,
                                       image_data = body response, image_format = format\<rparr>
                          in (Inr image,
                              st1\<lparr>imageCache := AList.update url image (imageCache st1)\<rparr>)))))"

fun loadImage ::
  "runtime \<Rightarrow> image_state \<Rightarrow> jsval \<Rightarrow> (error + LoadedImage) \<times> image_state" where
  "loadImage rt st (VFun None) = (Inl Rejected, st)"
| "loadImage rt st (VFun (Some resolvedSrc)) = loadImage rt st resolvedSrc"
| "loadImage rt st (VArrayBuffer src) = (loadFromBuffer src, st)"
| "loadImage rt st (VUint8Array src) = (loadFromBuffer src, st)"
| "loadImage rt st (VStr src) =
     (if startsWith src ''data:'' then (loadFromDataUri rt src, st)
      else if startsWith src ''http://'' \<or> startsWith src ''https://''
      then loadFromUrl rt st src
      else (Inl (PaperFlowError LOCAL_FILE_NOT_SUPPORTED), st))"
| "loadImage rt st _ = (Inl (PaperFlowError INVALID_IMAGE_SOURCE), st)"

text \<open>
  The spec's wording of a signature: the bytes \<open>sig\<close> stand in the buffer from position
  \<open>offset\<close> on.
\<close>

definition hasSignature :: "8 word list \<Rightarrow> nat \<Rightarrow> 8 word list \<Rightarrow> bool" where
  "hasSignature arr offset sig = (take (length sig) (drop offset arr) = sig)"

section \<open>Utility-class parser (\<^verbatim>\<open>tailwind.ts\<close>)\<close>

definition SPACING :: "(string \<times> jsval) list" where
  "SPACING =
    [(''0'', VNum 0), (''px'', VNum 1), (''0.5'', VNum 2), (''1'', VNum 4), (''1.5'', VNum 6),
     (''2'', VNum 8), (''2.5'', VNum 10), (''3'', VNum 12), (''3.5'', VNum 14),
     (''4'', VNum 16), (''5'', VNum 20), (''6'', VNum 24), (''7'', VNum 28), (''8'', VNum 32),
     (''9'', VNum 36), (''10'', VNum 40), (''11'', VNum 44), (''12'', VNum 48),
     (''14'', VNum 56), (''16'', VNum 64), (''20'', VNum 80), (''24'', VNum 96),
     (''28'', VNum 112), (''32'', VNum 128), (''36'', VNum 144), (''40'', VNum 160),
     (''44'', VNum 176), (''48'', VNum 192), (''52'', VNum 208), (''56'', VNum 224),
     (''60'', VNum 240), (''64'', VNum 256), (''72'', VNum 288), (''80'', VNum 320),
     (''96'', VNum 384)]"

definition FONT_WEIGHTS :: "(string \<times> jsval) list" where
  "FONT_WEIGHTS =
    [(''thin'', VNum 100), (''extralight'', VNum 200), (''light'', VNum 300),
     (''normal'', VNum 400), (''medium'', VNum 500), (''semibold'', VNum 600),
     (''bold'', VNum 700), (''extrabold'', VNum 800), (''black'', VNum 900)]"

definition BORDER_RADIUS :: "(string \<times> jsval) list" where
  "BORDER_RADIUS =
    [(''none'', VNum 0), (''sm'', VNum 2), ([], VNum 4), (''md'', VNum 6), (''lg'', VNum 8),
     (''xl'', VNum 12), (''2xl'', VNum 16), (''3xl'', VNum 24), (''full'', VNum 9999)]"

definition BORDER_WIDTH :: "(string \<times> jsval) list" where
  "BORDER_WIDTH =
    [([], VNum 1), (''0'', VNum 0), (''2'', VNum 2), (''4'', VNum 4), (''8'', VNum 8)]"

definition OPACITY :: "(string \<times> jsval) list" where
  "OPACITY =
    [(''0'', VNum 0), (''5'', VNum 0.05), (''10'', VNum 0.1), (''20'', VNum 0.2),
     (''25'', VNum 0.25), (''30'', VNum 0.3), (''40'', VNum 0.4), (''50'', VNum 0.5),
     (''60'', VNum 0.6), (''70'', VNum 0.7), (''75'', VNum 0.75), (''80'', VNum 0.8),
     (''90'', VNum 0.9), (''95'', VNum 0.95), (''100'', VNum 1)]"

definition FONT_SIZES :: "(string \<times> jsval) list" where
  "FONT_SIZES =
    [(''xs'', VObj [(''fontSize'', VNum 12), (''lineHeight'', VNum 16)]),
     (''sm'', VObj [(''fontSize'', VNum 14), (''lineHeight'', VNum 20)]),
     (''base'', VObj [(''fontSize'', VNum 16), (''lineHeight'', VNum 24)]),
     (''lg'', VObj [(''fontSize'', VNum 18), (''lineHeight'', VNum 28)]),
     (''xl'', VObj [(''fontSize'', VNum 20), (''lineHeight'', VNum 28)]),
     (''2xl'', VObj [(''fontSize'', VNum 24), (''lineHeight'', VNum 32)]),
     (''3xl'', VObj [(''fontSize'', VNum 30), (''lineHeight'', VNum 36)]),
     (''4xl'', VObj [(''fontSize'', VNum 36), (''lineHeight'', VNum 40)]),
     (''5xl'', VObj [(''fontSize'', VNum 48), (''lineHeight'', VNum 48)]),
     (''6xl'', VObj [(''fontSize'', VNum 60), (''lineHeight'', VNum 60)]),
     (''7xl'', VObj [(''fontSize'', VNum 72), (''lineHeight'', VNum 72)]),
     (''8xl'', VObj [(''fontSize'', VNum 96), (''lineHeight'', VNum 96)]),
     (''9xl'', VObj [(''fontSize'', VNum 128), (''lineHeight'', VNum 128)])]"

definition COLORS :: "(string \<times> jsval) list" where
  "COLORS =
    [(''transparent'', VStr ''transparent''), (''current'', VStr ''currentColor''),
     (''black'', VStr ''#000000''), (''white'', VStr ''#ffffff''),
     (''gray-50'', VStr ''#f9fafb''), (''gray-100'', VStr ''#f3f4f6''),
     (''gray-200'', VStr ''#e5e7eb''), (''gray-300'', VStr ''#d1d5db''),
     (''gray-400'', VStr ''#9ca3af''), (''gray-500'', VStr ''#6b7280''),
     (''gray-600'', VStr ''#4b5563''), (''gray-700'', VStr ''#374151''),
     (''gray-800'', VStr ''#1f2937''), (''gray-900'', VStr ''#111827''),
     (''gray-950'', VStr ''#030712''), (''slate-50'', VStr ''#f8fafc''),
     (''slate-100'', VStr ''#f1f5f9''), (''slate-200'', VStr ''#e2e8f0''),
     (''slate-300'', VStr ''#cbd5e1''), (''slate-400'', VStr ''#94a3b8''),
     (''slate-500'', VStr ''#64748b''), (''slate-600'', VStr ''#475569''),
     (''slate-700'', VStr ''#334155''), (''slate-800'', VStr ''#1e293b''),
     (''slate-900'', VStr ''#0f172a''), (''slate-950'', VStr ''#020617''),
     (''red-50'', VStr ''#fef2f2''), (''red-100'', VStr ''#fee2e2''),
     (''red-200'', VStr ''#fecaca''), (''red-300'', VStr ''#fca5a5''),
     (''red-400'', VStr ''#f87171''), (''red-500'', VStr ''#ef4444''),
     (''red-600'', VStr ''#dc2626''), (''red-700'', VStr ''#b91c1c''),
     (''red-800'', VStr ''#991b1b''), (''red-900'', VStr ''#7f1d1d''),
     (''red-950'', VStr ''#450a0a''), (''orange-50'', VStr ''#fff7ed''),
     (''orange-100'', VStr ''#ffedd5''), (''orange-200'', VStr ''#fed7aa''),
     (''orange-300'', VStr ''#fdba74''), (''orange-400'', VStr ''#fb923c''),
     (''orange-500'', VStr ''#f97316''), (''orange-600'', VStr ''#ea580c''),
     (''orange-700'', VStr ''#c2410c''), (''orange-800'', VStr ''#9a3412''),
     (''orange-900'', VStr ''#7c2d12''), (''orange-950'', VStr ''#431407''),
     (''yellow-50'', VStr ''#fefce8''), (''yellow-100'', VStr ''#fef9c3''),
     (''yellow-200'', VStr ''#fef08a''), (''yellow-300'', VStr ''#fde047''),
     (''yellow-400'', VStr ''#facc15''), (''yellow-500'', VStr ''#eab308''),
     (''yellow-600'', VStr ''#ca8a04''), (''yellow-700'', VStr ''#a16207''),
     (''yellow-800'', VStr ''#854d0e''), (''yellow-900'', VStr ''#713f12''),
     (''yellow-950'', VStr ''#422006''), (''green-50'', VStr ''#f0fdf4''),
     (''green-100'', VStr ''#dcfce7''), (''green-200'', VStr ''#bbf7d0''),
     (''green-300'', VStr ''#86efac''), (''green-400'', VStr ''#4ade80''),
     (''green-500'', VStr ''#22c55e''), (''green-600'', VStr ''#16a34a''),
     (''green-700'', VStr ''#15803d''), (''green-800'', VStr ''#166534''),
     (''green-900'', VStr ''#14532d''), (''green-950'', VStr ''#052e16''),
     (''blue-50'', VStr ''#eff6ff''), (''blue-100'', VStr ''#dbeafe''),
     (''blue-200'', VStr ''#bfdbfe''), (''blue-300'', VStr ''#93c5fd''),
     (''blue-400'', VStr ''#60a5fa''), (''blue-500'', VStr ''#3b82f6''),
     (''blue-600'', VStr ''#2563eb''), (''blue-700'', VStr ''#1d4ed8''),
     (''blue-800'', VStr ''#1e40af''), (''blue-900'', VStr ''#1e3a8a''),
     (''blue-950'', VStr ''#172554''), (''indigo-50'', VStr ''#eef2ff''),
     (''indigo-100'', VStr ''#e0e7ff''), (''indigo-200'', VStr ''#c7d2fe''),
     (''indigo-300'', VStr ''#a5b4fc''), (''indigo-400'', VStr ''#818cf8''),
     (''indigo-500'', VStr ''#6366f1''), (''indigo-600'', VStr ''#4f46e5''),
     (''indigo-700'', VStr ''#4338ca''), (''indigo-800'', VStr ''#3730a3''),
     (''indigo-900'', VStr ''#312e81''), (''indigo-950'', VStr ''#1e1b4b''),
     (''purple-50'', VStr ''#faf5ff''), (''purple-100'', VStr ''#f3e8ff''),
     (''purple-200'', VStr ''#e9d5ff''), (''purple-300'', VStr ''#d8b4fe''),
     (''purple-400'', VStr ''#c084fc''), (''purple-500'', VStr ''#a855f7''),
     (''purple-600'', VStr ''#9333ea''), (''purple-700'', VStr ''#7e22ce''),
     (''purple-800'', VStr ''#6b21a8''), (''purple-900'', VStr ''#581c87''),
     (''purple-950'', VStr ''#3b0764''), (''pink-50'', VStr ''#fdf2f8''),
     (''pink-100'', VStr ''#fce7f3''), (''pink-200'', VStr ''#fbcfe8''),
     (''pink-300'', VStr ''#f9a8d4''), (''pink-400'', VStr ''#f472b6''),
     (''pink-500'', VStr ''#ec4899''), (''pink-600'', VStr ''#db2777''),
     (''pink-700'', VStr ''#be185d''), (''pink-800'', VStr ''#9d174d''),
     (''pink-900'', VStr ''#831843''), (''pink-950'', VStr ''#500724'')]"

text \<open>
  Reading an array element, \<^verbatim>\<open>undefined\<close> past the end, and the template
  \<^verbatim>\<open>`${(num / den) * 100}%`\<close> on two numbers that passed the truthiness test.
\<close>

definition arrayAt :: "jsval list \<Rightarrow> nat \<Rightarrow> jsval" where
  "arrayAt xs i = (if i < length xs then xs ! i else VUndef)"

definition percentOf :: "runtime \<Rightarrow> jsval \<Rightarrow> jsval \<Rightarrow> string" where
  "percentOf rt num den =
     (case (num, den) of
        (VNum n, VNum d) \<Rightarrow> toString rt (VNum (n / d * 100)) @ ''%''
      | _ \<Rightarrow> ''NaN%'')"

text \<open>
  \<^verbatim>\<open>parseClass(cls, style)\<close> mutates \<open>style\<close>; the model returns the style after the
  call. The branches stand in the order of the source, each ending the call.
\<close>

definition parseClass :: "runtime \<Rightarrow> string \<Rightarrow> (string \<times> jsval) list \<Rightarrow> (string \<times> jsval) list" where
  "parseClass rt cls style =
     (if cls = ''flex'' then setProp ''display'' (VStr ''flex'') style
      else if cls = ''hidden'' then setProp ''display'' (VStr ''none'') style
      else if cls = ''flex-row'' then setProp ''flexDirection'' (VStr ''row'') style
      else if cls = ''flex-row-reverse'' then setProp ''flexDirection'' (VStr ''row-reverse'') style
      else if cls = ''flex-col'' then setProp ''flexDirection'' (VStr ''column'') style
      else if cls = ''flex-col-reverse''
        then setProp ''flexDirection'' (VStr ''column-reverse'') style
      else if cls = ''flex-wrap'' then setProp ''flexWrap'' (VStr ''wrap'') style
      else if cls = ''flex-wrap-reverse'' then setProp ''flexWrap'' (VStr ''wrap-reverse'') style
      else if cls = ''flex-nowrap'' then setProp ''flexWrap'' (VStr ''nowrap'') style
      else if cls = ''flex-1'' then setProp ''flex'' (VStr ''1 1 0%'') style
      else if cls = ''flex-auto'' then setProp ''flex'' (VStr ''1 1 auto'') style
      else if cls = ''flex-initial'' then setProp ''flex'' (VStr ''0 1 auto'') style
      else if cls = ''flex-none'' then setProp ''flex'' (VStr ''none'') style
      else if cls = ''grow'' then setProp ''flexGrow'' (VNum 1) style
      else if cls = ''grow-0'' then setProp ''flexGrow'' (VNum 0) style
      else if cls = ''shrink'' then setProp ''flexShrink'' (VNum 1) style
      else if cls = ''shrink-0'' then setProp ''flexShrink'' (VNum 0) style
      else if cls = ''justify-start'' then setProp ''justifyContent'' (VStr ''flex-start'') style
      else if cls = ''justify-end'' then setProp ''justifyContent'' (VStr ''flex-end'') style
      else if cls = ''justify-center'' then setProp ''justifyContent'' (VStr ''center'') style
      else if cls = ''justify-between''
        then setProp ''justifyContent'' (VStr ''space-between'') style
      else if cls = ''justify-around'' then setProp ''justifyContent'' (VStr ''space-around'') style
      else if cls = ''justify-evenly'' then setProp ''justifyContent'' (VStr ''space-evenly'') style
      else if cls = ''items-start'' then setProp ''alignItems'' (VStr ''flex-start'') style
      else if cls = ''items-end'' then setProp ''alignItems'' (VStr ''flex-end'') style
      else if cls = ''items-center'' then setProp ''alignItems'' (VStr ''center'') style
      else if cls = ''items-baseline'' then setProp ''alignItems'' (VStr ''baseline'') style
      else if cls = ''items-stretch'' then setProp ''alignItems'' (VStr ''stretch'') style
      else if cls = ''self-auto'' then setProp ''alignSelf'' (VStr ''auto'') style
      else if cls = ''self-start'' then setProp ''alignSelf'' (VStr ''flex-start'') style
      else if cls = ''self-end'' then setProp ''alignSelf'' (VStr ''flex-end'') style
      else if cls = ''self-center'' then setProp ''alignSelf'' (VStr ''center'') style
      else if cls = ''self-stretch'' then setProp ''alignSelf'' (VStr ''stretch'') style
      else if startsWith cls ''gap-'' then
         (let value = drop 4 cls in
          (let spacing = recordGet SPACING value in
            if spacing \<noteq> VUndef then setProp ''gap'' spacing style else style))
      else if startsWith cls ''gap-x-'' then
         (let value = drop 6 cls in
          (let spacing = recordGet SPACING value in
            if spacing \<noteq> VUndef then setProp ''columnGap'' spacing style else style))
      else if startsWith cls ''gap-y-'' then
         (let value = drop 6 cls in
          (let spacing = recordGet SPACING value in
            if spacing \<noteq> VUndef then setProp ''rowGap'' spacing style else style))
      else if startsWith cls ''p-'' then
         (let value = drop 2 cls in
          (let spacing = recordGet SPACING value in
            if spacing \<noteq> VUndef then setProp ''padding'' spacing style else style))
      else if startsWith cls ''px-'' then
         (let value = drop 3 cls in
          (let spacing = recordGet SPACING value in
            if spacing \<noteq> VUndef
              then setProp ''paddingRight'' spacing (setProp ''paddingLeft'' spacing style)
              else style))
      else if startsWith cls ''py-'' then
         (let value = drop 3 cls in
          (let spacing = recordGet SPACING value in
            if spacing \<noteq> VUndef
              then setProp ''paddingBottom'' spacing (setProp ''paddingTop'' spacing style)
              else style))
      else if startsWith cls ''pt-'' then
         (let value = drop 3 cls in
          (let spacing = recordGet SPACING value in
            if spacing \<noteq> VUndef then setProp ''paddingTop'' spacing style else style))
      else if startsWith cls ''pr-'' then
         (let value = drop 3 cls in
          (let spacing = recordGet SPACING value in
            if spacing \<noteq> VUndef then setProp ''paddingRight'' spacing style else style))
      else if startsWith cls ''pb-'' then
         (let value = drop 3 cls in
          (let spacing = recordGet SPACING value in
            if spacing \<noteq> VUndef then setProp ''paddingBottom'' spacing style else style))
      else if startsWith cls ''pl-'' then
         (let value = drop 3 cls in
          (let spacing = recordGet SPACING value in
            if spacing \<noteq> VUndef then setProp ''paddingLeft'' spacing style else style))
      else if startsWith cls ''m-'' then
         (let value = drop 2 cls in
          if value = ''auto'' then setProp ''margin'' (VStr ''auto'') style
          else (let spacing = recordGet SPACING value in
            if spacing \<noteq> VUndef then setProp ''margin'' spacing style else style))
      else if startsWith cls ''mx-'' then
         (let value = drop 3 cls in
          if value = ''auto''
            then setProp ''marginRight'' (VStr ''auto'') (setProp ''marginLeft'' (VStr ''auto'') style)
          else (let spacing = recordGet SPACING value in
            if spacing \<noteq> VUndef
              then setProp ''marginRight'' spacing (setProp ''marginLeft'' spacing style)
              else style))
      else if startsWith cls ''my-'' then
         (let value = drop 3 cls in
          if value = ''auto''
            then setProp ''marginBottom'' (VStr ''auto'') (setProp ''marginTop'' (VStr ''auto'') style)
          else (let spacing = recordGet SPACING value in
            if spacing \<noteq> VUndef
              then setProp ''marginBottom'' spacing (setProp ''marginTop'' spacing style)
              else style))
      else if startsWith cls ''mt-'' then
         (let value = drop 3 cls in
          if value = ''auto'' then setProp ''marginTop'' (VStr ''auto'') style
          else (let spacing = recordGet SPACING value in
            if spacing \<noteq> VUndef then setProp ''marginTop'' spacing style else style))
      else if startsWith cls ''mr-'' then
         (let value = drop 3 cls in
          if value = ''auto'' then setProp ''marginRight'' (VStr ''auto'') style
          else (let spacing = recordGet SPACING value in
            if spacing \<noteq> VUndef then setProp ''marginRight'' spacing style else style))
      else if startsWith cls ''mb-'' then
         (let value = drop 3 cls in
          if value = ''auto'' then setProp ''marginBottom'' (VStr ''auto'') style
          else (let spacing = recordGet SPACING value in
            if spacing \<noteq> VUndef then setProp ''marginBottom'' spacing style else style))
      else if startsWith cls ''ml-'' then
         (let value = drop 3 cls in
          if value = ''auto'' then setProp ''marginLeft'' (VStr ''auto'') style
          else (let spacing = recordGet SPACING value in
            if spacing \<noteq> VUndef then setProp ''marginLeft'' spacing style else style))
      else if startsWith cls ''w-'' then
         (let value = drop 2 cls in
          if value = ''full'' then setProp ''width'' (VStr ''100%'') style
          else if value = ''screen'' then setProp ''width'' (VStr ''100vw'') style
          else if value = ''auto'' then setProp ''width'' (VStr ''auto'') style
          else if includes_of value ''/'' then
            (let parts = map (toNumber rt) (splitChar CHR ''/'' value);
                 num = arrayAt parts 0;
                 den = arrayAt parts 1
             in if truthy num \<and> truthy den
                then setProp ''width'' (VStr (percentOf rt num den)) style else style)
          else (let spacing = recordGet SPACING value in
            if spacing \<noteq> VUndef then setProp ''width'' spacing style else style))
      else if startsWith cls ''min-w-'' then
         (let value = drop 6 cls in
          if value = ''full'' then setProp ''minWidth'' (VStr ''100%'') style
          else (let spacing = recordGet SPACING value in
            if spacing \<noteq> VUndef then setProp ''minWidth'' spacing style else style))
      else if startsWith cls ''max-w-'' then
         (let value = drop 6 cls in
          if value = ''full'' then setProp ''maxWidth'' (VStr ''100%'') style
          else if value = ''none'' then setProp ''maxWidth'' (VStr ''none'') style
          else (let spacing = recordGet SPACING value in
            if spacing \<noteq> VUndef then setProp ''maxWidth'' spacing style else style))
      else if startsWith cls ''h-'' then
         (let value = drop 2 cls in
          if value = ''full'' then setProp ''height'' (VStr ''100%'') style
          else if value = ''screen'' then setProp ''height'' (VStr ''100vh'') style
          else if value = ''auto'' then setProp ''height'' (VStr ''auto'') style
          else (let spacing = recordGet SPACING value in
            if spacing \<noteq> VUndef then setProp ''height'' spacing style else style))
      else if startsWith cls ''text-'' \<and> truthy (recordGet FONT_SIZES (drop 5 cls)) then
         (let size = recordGet FONT_SIZES (drop 5 cls) in
          if truthy size
          then setProp ''lineHeight'' (getProp size ''lineHeight'')
                 (setProp ''fontSize'' (getProp size ''fontSize'') style)
          else style)
      else if startsWith cls ''font-'' \<and> recordGet FONT_WEIGHTS (drop 5 cls) \<noteq> VUndef then
         setProp ''fontWeight'' (recordGet FONT_WEIGHTS (drop 5 cls)) style
      else if cls = ''italic'' then setProp ''fontStyle'' (VStr ''italic'') style
      else if cls = ''not-italic'' then setProp ''fontStyle'' (VStr ''normal'') style
      else if cls = ''font-sans''
        then setProp ''fontFamily'' (VStr ''Inter, system-ui, sans-serif'') style
      else if cls = ''font-serif'' then setProp ''fontFamily'' (VStr ''Georgia, serif'') style
      else if cls = ''font-mono''
        then setProp ''fontFamily'' (VStr ''JetBrains Mono, monospace'') style
      else if startsWith cls ''font-'' \<and> \<not> truthy (recordGet FONT_WEIGHTS (drop 5 cls)) then
         (let fontName = drop 5 cls in
          if fontName \<notin> set [''sans'', ''serif'', ''mono'']
          then setProp ''fontFamily''
                 (VStr (joinWith '' ''
                    (map (\<lambda>word. toUpperCase (take 1 word) @ drop 1 word)
                       (splitChar CHR ''-'' fontName)))) style
          else style)
      else if startsWith cls ''text-'' \<and> truthy (recordGet COLORS (drop 5 cls)) then
         setProp ''color'' (recordGet COLORS (drop 5 cls)) style
      else if cls = ''text-left'' then setProp ''textAlign'' (VStr ''left'') style
      else if cls = ''text-center'' then setProp ''textAlign'' (VStr ''center'') style
      else if cls = ''text-right'' then setProp ''textAlign'' (VStr ''right'') style
      else if cls = ''text-justify'' then setProp ''textAlign'' (VStr ''justify'') style
      else if cls = ''underline'' then setProp ''textDecoration'' (VStr ''underline'') style
      else if cls = ''line-through'' then setProp ''textDecoration'' (VStr ''line-through'') style
      else if cls = ''no-underline'' then setProp ''textDecoration'' (VStr ''none'') style
      else if cls = ''uppercase'' then setProp ''textTransform'' (VStr ''uppercase'') style
      else if cls = ''lowercase'' then setProp ''textTransform'' (VStr ''lowercase'') style
      else if cls = ''capitalize'' then setProp ''textTransform'' (VStr ''capitalize'') style
      else if cls = ''normal-case'' then setProp ''textTransform'' (VStr ''none'') style
      else if cls = ''tracking-tighter'' then setProp ''letterSpacing'' (VNum (-0.8)) style
      else if cls = ''tracking-tight'' then setProp ''letterSpacing'' (VNum (-0.4)) style
      else if cls = ''tracking-normal'' then setProp ''letterSpacing'' (VNum 0) style
      else if cls = ''tracking-wide'' then setProp ''letterSpacing'' (VNum 0.4) style
      else if cls = ''tracking-wider'' then setProp ''letterSpacing'' (VNum 0.8) style
      else if cls = ''tracking-widest'' then setProp ''letterSpacing'' (VNum 1.6) style
      else if cls = ''leading-none'' then setProp ''lineHeight'' (VNum 1) style
      else if cls = ''leading-tight'' then setProp ''lineHeight'' (VNum 1.25) style
      else if cls = ''leading-snug'' then setProp ''lineHeight'' (VNum 1.375) style
      else if cls = ''leading-normal'' then setProp ''lineHeight'' (VNum 1.5) style
      else if cls = ''leading-relaxed'' then setProp ''lineHeight'' (VNum 1.625) style
      else if cls = ''leading-loose'' then setProp ''lineHeight'' (VNum 2) style
      else if startsWith cls ''bg-'' \<and> truthy (recordGet COLORS (drop 3 cls)) then
         setProp ''backgroundColor'' (recordGet COLORS (drop 3 cls)) style
      else if cls = ''rounded'' then setProp ''borderRadius'' (recordGet BORDER_RADIUS []) style
      else if startsWith cls ''rounded-'' then
         (let value = drop 8 cls in
          (let radius = recordGet BORDER_RADIUS value in
            if radius \<noteq> VUndef then setProp ''borderRadius'' radius style else style))
      else if cls = ''border'' then
         setProp ''borderColor'' (recordGet COLORS ''gray-200'')
           (setProp ''borderStyle'' (VStr ''solid'')
              (setProp ''borderWidth'' (recordGet BORDER_WIDTH []) style))
      else if startsWith cls ''border-'' \<and> recordGet BORDER_WIDTH (drop 7 cls) \<noteq> VUndef then
         setProp ''borderStyle'' (VStr ''solid'')
           (setProp ''borderWidth'' (recordGet BORDER_WIDTH (drop 7 cls)) style)
      else if cls = ''border-t''
        then setProp ''borderStyle'' (VStr ''solid'') (setProp ''borderTopWidth'' (VNum 1) style)
      else if cls = ''border-r''
        then setProp ''borderStyle'' (VStr ''solid'') (setProp ''borderRightWidth'' (VNum 1) style)
      else if cls = ''border-b''
        then setProp ''borderStyle'' (VStr ''solid'') (setProp ''borderBottomWidth'' (VNum 1) style)
      else if cls = ''border-l''
        then setProp ''borderStyle'' (VStr ''solid'') (setProp ''borderLeftWidth'' (VNum 1) style)
      else if startsWith cls ''border-'' \<and> truthy (recordGet COLORS (drop 7 cls)) then
         setProp ''borderColor'' (recordGet COLORS (drop 7 cls)) style
      else if cls = ''border-solid'' then setProp ''borderStyle'' (VStr ''solid'') style
      else if cls = ''border-dashed'' then setProp ''borderStyle'' (VStr ''dashed'') style
      else if cls = ''border-dotted'' then setProp ''borderStyle'' (VStr ''dotted'') style
      else if cls = ''border-none'' then setProp ''borderStyle'' (VStr ''none'') style
      else if startsWith cls ''opacity-'' then
         (let value = drop 8 cls in
          (let opacity = recordGet OPACITY value in
            if opacity \<noteq> VUndef then setProp ''opacity'' opacity style else style))
      else if cls = ''overflow-hidden'' then setProp ''overflow'' (VStr ''hidden'') style
      else if cls = ''overflow-visible'' then setProp ''overflow'' (VStr ''visible'') style
      else if cls = ''relative'' then setProp ''position'' (VStr ''relative'') style
      else if cls = ''absolute'' then setProp ''position'' (VStr ''absolute'') style
      else if startsWith cls ''top-'' then
         (let value = drop 4 cls in
          (let spacing = recordGet SPACING value in
            if spacing \<noteq> VUndef then setProp ''top'' spacing style else style))
      else if startsWith cls ''right-'' then
         (let value = drop 6 cls in
          (let spacing = recordGet SPACING value in
            if spacing \<noteq> VUndef then setProp ''right'' spacing style else style))
      else if startsWith cls ''bottom-'' then
         (let value = drop 7 cls in
          (let spacing = recordGet SPACING value in
            if spacing \<noteq> VUndef then setProp ''bottom'' spacing style else style))
      else if startsWith cls ''left-'' then
         (let value = drop 5 cls in
          (let spacing = recordGet SPACING value in
            if spacing \<noteq> VUndef then setProp ''left'' spacing style else style))
      else if startsWith cls ''z-'' then
         (let value = parseInt10 (drop 2 cls) in
          if value \<noteq> VNaN then setProp ''zIndex'' value style else style)
      else if cls = ''object-contain'' then setProp ''objectFit'' (VStr ''contain'') style
      else if cls = ''object-cover'' then setProp ''objectFit'' (VStr ''cover'') style
      else if cls = ''object-fill'' then setProp ''objectFit'' (VStr ''fill'') style
      else if cls = ''object-none'' then setProp ''objectFit'' (VStr ''none'') style
      else style)"

definition classTokens :: "string \<Rightarrow> string list" where
  "classTokens className = filter (\<lambda>t. t \<noteq> []) (splitWhitespace className)"

definition parseTailwindClasses :: "runtime \<Rightarrow> string \<Rightarrow> (string \<times> jsval) list" where
  "parseTailwindClasses rt className =
     (if className = [] then []
      else fold (\<lambda>cls style. parseClass rt cls style) (classTokens className) [])"

definition tw :: "runtime \<Rightarrow> string \<Rightarrow> (string \<times> jsval) list" where
  "tw rt className = parseTailwindClasses rt className"

section \<open>The intermediate representation (\<^verbatim>\<open>ir/types.ts\<close>)\<close>

datatype IRNodeType = NodeDocument | NodePage | NodeView | NodeText | NodeImage | NodeLink

datatype IRNode =
  IRNode (node_type: IRNodeType) (node_props: "(string \<times> jsval) list")
    (node_style: "(string \<times> jsval) list") (node_children: "IRNode list")

record Margin =
  margin_top :: jsval
  margin_right :: jsval
  margin_bottom :: jsval
  margin_left :: jsval

record IRPage =
  page_size :: jsval
  page_margin :: Margin
  page_children :: "IRNode list"

record IRFontUsage =
  family :: string
  weights :: "jsval list"
  styles :: "jsval list"

record IRImageUsage =
  usage_id :: string
  usage_src :: string
  originalSrc :: jsval

record IRDocumentMetadata =
  title :: jsval
  author :: jsval
  subject :: jsval
  creator :: string
  creationDate :: nat

record IRDocument =
  version :: nat
  pages :: "IRPage list"
  fonts :: "IRFontUsage list"
  images :: "IRImageUsage list"
  metadata :: "IRDocumentMetadata option"

definition dimensions :: "rat \<Rightarrow> rat \<Rightarrow> jsval" where
  "dimensions w h = VObj [(''width'', VNum w), (''height'', VNum h)]"

definition PageSizes :: "(string \<times> jsval) list" where
  "PageSizes =
     [(''A4'', dimensions 595.28 841.89), (''A3'', dimensions 841.89 1190.55),
      (''A5'', dimensions 419.53 595.28), (''Letter'', dimensions 612 792),
      (''Legal'', dimensions 612 1008), (''Tabloid'', dimensions 792 1224)]"

text \<open>\<^verbatim>\<open>a ?? b\<close>, and a property read that throws on \<^verbatim>\<open>null\<close> and \<^verbatim>\<open>undefined\<close>.\<close>

definition nullish :: "jsval \<Rightarrow> bool" where
  "nullish v = (v = VUndef \<or> v = VNull)"

definition orElse :: "jsval \<Rightarrow> jsval \<Rightarrow> jsval" where
  "orElse a b = (if nullish a then b else a)"

definition readProp :: "jsval \<Rightarrow> string \<Rightarrow> error + jsval" where
  "readProp v k = (if nullish v then Inl TypeError else Inr (getProp v k))"

definition isNumber :: "jsval \<Rightarrow> bool" where
  "isNumber v = (case v of VNum r \<Rightarrow> True | VNaN \<Rightarrow> True | _ \<Rightarrow> False)"

definition uniformMargin :: "jsval \<Rightarrow> jsval \<Rightarrow> jsval \<Rightarrow> jsval \<Rightarrow> Margin" where
  "uniformMargin t r b l =
     \<lparr>margin_top = t, margin_right = r, margin_bottom = b, margin_left = l\<rparr>"

definition partialMargin :: "jsval \<Rightarrow> error + Margin" where
  "partialMargin margin =
     (if nullish margin then Inl TypeError
      else Inr (uniformMargin (orElse (getProp margin ''top'') (VNum 0))
                  (orElse (getProp margin ''right'') (VNum 0))
                  (orElse (getProp margin ''bottom'') (VNum 0))
                  (orElse (getProp margin ''left'') (VNum 0))))"

definition normalizeMargin :: "runtime \<Rightarrow> jsval \<Rightarrow> error + Margin" where
  "normalizeMargin rt margin =
     (if margin = VUndef then Inr (uniformMargin (VNum 0) (VNum 0) (VNum 0) (VNum 0))
      else if isNumber margin then Inr (uniformMargin margin margin margin margin)
      else case margin of
        VStr s \<Rightarrow>
          (let parts = map (parseFloat rt) (splitWhitespace s) in
           if length parts = 1
           then (let val = orElse (parts ! 0) (VNum 0) in Inr (uniformMargin val val val val))
           else if length parts = 2
           then Inr (uniformMargin (orElse (parts ! 0) (VNum 0)) (orElse (parts ! 1) (VNum 0))
                      (orElse (parts ! 0) (VNum 0)) (orElse (parts ! 1) (VNum 0)))
           else if length parts = 4
           then Inr (uniformMargin (orElse (parts ! 0) (VNum 0)) (orElse (parts ! 1) (VNum 0))
                      (orElse (parts ! 2) (VNum 0)) (orElse (parts ! 3) (VNum 0)))
           else partialMargin margin)
      | _ \<Rightarrow> partialMargin margin)"

definition resolvePageSize :: "jsval \<Rightarrow> jsval" where
  "resolvePageSize sz =
     (if sz = VUndef then recordGet PageSizes ''A4''
      else case sz of
        VStr name \<Rightarrow> orElse (recordGet PageSizes name) (recordGet PageSizes ''A4'')
      | _ \<Rightarrow> sz)"

section \<open>React elements and the components (\<^verbatim>\<open>components.tsx\<close>)\<close>

text \<open>
  An element's type is a tag string or a function component. A function component is
  named, and called through a table of components, since a component may render elements
  of its own type. The props are read at their declared types: an optional class string,
  an optional style object, the children, and the remaining props by name.
\<close>

datatype etype = Tag string | Comp string

datatype rnode =
    RNull
  | RUndef
  | RBool bool
  | RStr string
  | RNum rat
  | RArr "rnode list"
  | RElem etype props
and props =
  Props (props_className: "string option") (props_style: "(string \<times> jsval) list option")
    (props_children: rnode) (props_rest: "(string \<times> jsval) list")

type_synonym components = "string \<Rightarrow> props \<Rightarrow> rnode"

definition DOCUMENT :: string where "DOCUMENT = ''paperflow-document''"
definition PAGE :: string where "PAGE = ''paperflow-page''"
definition VIEW :: string where "VIEW = ''paperflow-view''"
definition TEXT :: string where "TEXT = ''paperflow-text''"
definition IMAGE :: string where "IMAGE = ''paperflow-image''"
definition LINK :: string where "LINK = ''paperflow-link''"

text \<open>
  Reading an own property, a destructuring default (taken when the property is
  \<^verbatim>\<open>undefined\<close>), and the rest of a destructuring pattern.
\<close>

definition getOwn :: "(string \<times> jsval) list \<Rightarrow> string \<Rightarrow> jsval" where
  "getOwn obj k = (case map_of obj k of Some v \<Rightarrow> v | None \<Rightarrow> VUndef)"

definition withDefault :: "(string \<times> jsval) list \<Rightarrow> string \<Rightarrow> jsval \<Rightarrow> jsval" where
  "withDefault obj k d = (if getOwn obj k = VUndef then d else getOwn obj k)"

definition omitKeys :: "string list \<Rightarrow> (string \<times> jsval) list \<Rightarrow> (string \<times> jsval) list" where
  "omitKeys ks obj = filter (\<lambda>(k, v). k \<notin> set ks) (ownEntries obj)"

definition Document :: "props \<Rightarrow> rnode" where
  "Document p = RElem (Tag DOCUMENT) p"

definition Page :: "props \<Rightarrow> rnode" where
  "Page p =
     RElem (Tag PAGE)
       (Props (props_className p) (props_style p) (props_children p)
          (assignAll
             [(''size'', withDefault (props_rest p) ''size'' (VStr ''A4'')),
              (''margin'', withDefault (props_rest p) ''margin'' (VNum 40)),
              (''orientation'', withDefault (props_rest p) ''orientation'' (VStr ''portrait''))]
             (omitKeys [''size'', ''margin'', ''orientation''] (props_rest p))))"

definition View :: "props \<Rightarrow> rnode" where
  "View p =
     RElem (Tag VIEW)
       (Props (props_className p) (props_style p) (props_children p)
          (assignAll [(''wrap'', withDefault (props_rest p) ''wrap'' (VBool True))]
             (omitKeys [''wrap''] (props_rest p))))"

definition Text :: "props \<Rightarrow> rnode" where
  "Text p =
     RElem (Tag TEXT)
       (Props (props_className p) (props_style p) (props_children p)
          (assignAll [(''wrap'', withDefault (props_rest p) ''wrap'' (VBool True))]
             (omitKeys [''wrap''] (props_rest p))))"

definition Image :: "props \<Rightarrow> rnode" where
  "Image p =
     RElem (Tag IMAGE)
       (Props (props_className p) (props_style p) (props_children p)
          (assignAll
             [(''src'', getOwn (props_rest p) ''src''),
              (''cache'', withDefault (props_rest p) ''cache'' (VBool True))]
             (omitKeys [''src'', ''cache''] (props_rest p))))"

definition Link :: "props \<Rightarrow> rnode" where
  "Link p =
     RElem (Tag LINK)
       (Props (props_className p) (props_style p) (props_children p)
          (assignAll [(''href'', getOwn (props_rest p) ''href'')]
             (omitKeys [''href''] (props_rest p))))"

text \<open>The table of the six components the package exports.\<close>

definition paperflowComponents :: components where
  "paperflowComponents name p =
     (if name = ''Document'' then Document p
      else if name = ''Page'' then Page p
      else if name = ''View'' then View p
      else if name = ''Text'' then Text p
      else if name = ''Image'' then Image p
      else if name = ''Link'' then Link p
      else RNull)"

section \<open>React to IR converter (\<^verbatim>\<open>react-to-ir.ts\<close>)\<close>

record ConversionContext =
  ctx_fonts :: "(string \<times> jsval list) list"
  ctx_images :: "(string \<times> IRImageUsage) list"

text \<open>
  \<^verbatim>\<open>unwrapElement\<close>: while the type is a function, call it on the props; stop when the
  result is no element. The loop has no bound, so the model is a partial function:
  \<open>None\<close> says that the loop does not end. A component is a function from props to what
  it renders; a component whose call throws (a class component, say) is not represented.
\<close>

partial_function (option) unwrapElement :: "components \<Rightarrow> etype \<times> props \<Rightarrow> (etype \<times> props) option" where
  "unwrapElement env current =
     (case fst current of
        Comp fn \<Rightarrow>
          (case env fn (snd current) of
             RElem t p \<Rightarrow> unwrapElement env (t, p)
           | _ \<Rightarrow> Some current)
      | Tag tag \<Rightarrow> Some current)"

declare unwrapElement.simps [code]

definition getElementType :: "etype \<Rightarrow> IRNodeType" where
  "getElementType type =
     (case type of
        Tag t \<Rightarrow>
          (if t = DOCUMENT then NodeDocument
           else if t = PAGE then NodePage
           else if t = VIEW then NodeView
           else if t = TEXT then NodeText
           else if t = IMAGE then NodeImage
           else if t = LINK then NodeLink
           else NodeView)
      | Comp fn \<Rightarrow> NodeView)"

definition mergeStyles ::
  "(string \<times> jsval) list \<Rightarrow> (string \<times> jsval) list \<Rightarrow> (string \<times> jsval) list" where
  "mergeStyles tailwindStyle inlineStyle = assignAll (assignAll [] tailwindStyle) inlineStyle"

definition convertStyle :: "(string \<times> jsval) list \<Rightarrow> (string \<times> jsval) list" where
  "convertStyle style =
     fold (\<lambda>(key, value) irStyle.
             if value \<noteq> VUndef \<and> value \<noteq> VNull
               then setProp key value irStyle else irStyle)
       (ownEntries style) []"

definition parseWeight_weights :: "(string \<times> jsval) list" where
  "parseWeight_weights =
     [(''thin'', VNum 100), (''extralight'', VNum 200), (''light'', VNum 300),
      (''normal'', VNum 400), (''medium'', VNum 500), (''semibold'', VNum 600),
      (''bold'', VNum 700), (''extrabold'', VNum 800), (''black'', VNum 900)]"

definition parseWeight :: "string \<Rightarrow> jsval" where
  "parseWeight weight =
     orElse (recordGet parseWeight_weights (toLowerCase weight))
       (if truthy (parseInt10 weight) then parseInt10 weight else VNum 400)"

text \<open>\<^verbatim>\<open>Set.prototype.add\<close> on a set kept in insertion order.\<close>

definition setAdd :: "jsval list \<Rightarrow> jsval \<Rightarrow> jsval list" where
  "setAdd xs v = (if v \<in> set xs then xs else xs @ [v])"

text \<open>
  \<^verbatim>\<open>trackFonts\<close>. A truthy \<^verbatim>\<open>fontFamily\<close> that is no string has no \<^verbatim>\<open>split\<close>, and a
  \<^verbatim>\<open>fontWeight\<close> that is neither a number nor a string has no \<^verbatim>\<open>toLowerCase\<close>: both
  calls throw a \<^verbatim>\<open>TypeError\<close>.
\<close>

definition trackFonts :: "(string \<times> jsval) list \<Rightarrow> ConversionContext \<Rightarrow> error + ConversionContext" where
  "trackFonts style context =
     (let fontFamily = getOwn style ''fontFamily'';
          fontWeight = orElse (getOwn style ''fontWeight'') (VNum 400)
      in if truthy fontFamily then
           (case fontFamily of
              VStr s \<Rightarrow>
                (case map (\<lambda>f. stripQuotes (trim f)) (splitChar CHR '','' s) of
                   [] \<Rightarrow> Inr context
                 | primaryFamily # others \<Rightarrow>
                     if primaryFamily \<noteq> [] then
                       (let fonts1 =
                              (if map_of (ctx_fonts context) primaryFamily = None
                               then ctx_fonts context @ [(primaryFamily, [])]
                               else ctx_fonts context)
                        in case (if isNumber fontWeight then Inr fontWeight
                                 else case fontWeight of
                                        VStr w \<Rightarrow> Inr (parseWeight w)
                                      | _ \<Rightarrow> Inl TypeError) of
                             Inl e \<Rightarrow> Inl e
                           | Inr weight \<Rightarrow>
                               Inr (context\<lparr>ctx_fonts :=
                                      AList.map_entry primaryFamily (\<lambda>ws. setAdd ws weight)
                                        fonts1\<rparr>))
                     else Inr context)
            | _ \<Rightarrow> Inl TypeError)
         else Inr context)"

definition trackImage :: "jsval \<Rightarrow> ConversionContext \<Rightarrow> ConversionContext" where
  "trackImage src context =
     (let srcString =
            (case src of
               VStr s \<Rightarrow> s
             | _ \<Rightarrow> ''async-'' @ toStringRadix 10 (length (ctx_images context)))
      in if map_of (ctx_images context) srcString = None
         then context\<lparr>ctx_images := ctx_images context @
                [(srcString,
                  \<lparr>usage_id = ''img-'' @ toStringRadix 10 (length (ctx_images context)),
                   usage_src = srcString, originalSrc = src\<rparr>)]\<rparr>
         else context)"

definition extractProps :: "props \<Rightarrow> IRNodeType \<Rightarrow> (string \<times> jsval) list" where
  "extractProps props elementType =
     fold (\<lambda>(key, value) extracted.
             if key \<notin> set [''style'', ''className'', ''children''] \<and> value \<noteq> VUndef
             then setProp key value extracted else extracted)
       (ownEntries (props_rest props)) []"

definition textLeaf :: "string \<Rightarrow> IRNode" where
  "textLeaf content = IRNode NodeText [(''content'', VStr content)] [] []"

text \<open>
  \<^verbatim>\<open>convertElement\<close> and \<^verbatim>\<open>convertChildren\<close> call each other along the tree that the
  components render, which need not be finite. The first argument bounds the nesting of
  elements that one call may follow; \<open>None\<close> says that the bound was too small or that an
  unwrap loop does not end. So \<open>None\<close> at every bound stands for two behaviours of the
  code: an unwrap loop that runs forever, and a nesting without end, on which the
  recursion exhausts the stack and the engine throws a \<^verbatim>\<open>RangeError\<close>.
  \<open>convertEach\<close> is the loop of \<^verbatim>\<open>convertChildren\<close> over an array.
\<close>

fun convertElement ::
    "nat \<Rightarrow> runtime \<Rightarrow> components \<Rightarrow> ConversionContext \<Rightarrow> etype \<times> props \<Rightarrow>
     (error + IRNode \<times> ConversionContext) option"
  and convertChildren ::
    "nat \<Rightarrow> runtime \<Rightarrow> components \<Rightarrow> ConversionContext \<Rightarrow> rnode \<Rightarrow>
     (error + IRNode list \<times> ConversionContext) option"
  and convertEach ::
    "nat \<Rightarrow> runtime \<Rightarrow> components \<Rightarrow> ConversionContext \<Rightarrow> rnode list \<Rightarrow>
     (error + IRNode list \<times> ConversionContext) option"
where
  "convertElement 0 rt env context element = None"
| "convertElement (Suc depth) rt env context element =
     (case unwrapElement env element of
        None \<Rightarrow> None
      | Some (type, props) \<Rightarrow>
          (let elementType = getElementType type;
               tailwindStyle =
                 (case props_className props of
                    Some className \<Rightarrow>
                      if className \<noteq> [] then parseTailwindClasses rt className else []
                  | None \<Rightarrow> []);
               inlineStyle = (case props_style props of Some s \<Rightarrow> s | None \<Rightarrow> []);
               mergedStyle = mergeStyles tailwindStyle inlineStyle
           in case trackFonts mergedStyle context of
                Inl e \<Rightarrow> Some (Inl e)
              | Inr context1 \<Rightarrow>
                  (let context2 =
                         (if elementType = NodeImage \<and> truthy (getOwn (props_rest props) ''src'')
                          then trackImage (getOwn (props_rest props) ''src'') context1
                          else context1)
                   in case convertChildren depth rt env context2 (props_children props) of
                        None \<Rightarrow> None
                      | Some (Inl e) \<Rightarrow> Some (Inl e)
                      | Some (Inr (children, context3)) \<Rightarrow>
                          Some (Inr (IRNode elementType (extractProps props elementType)
                                       (convertStyle mergedStyle) children, context3)))))"
| "convertChildren depth rt env context RNull = Some (Inr ([], context))"
| "convertChildren depth rt env context RUndef = Some (Inr ([], context))"
| "convertChildren depth rt env context (RBool b) = Some (Inr ([], context))"
| "convertChildren depth rt env context (RArr children) =
     convertEach depth rt env context children"
| "convertChildren depth rt env context (RElem t p) =
     (case convertElement depth rt env context (t, p) of
        None \<Rightarrow> None
      | Some (Inl e) \<Rightarrow> Some (Inl e)
      | Some (Inr (node, context1)) \<Rightarrow> Some (Inr ([node], context1)))"
| "convertChildren depth rt env context (RStr s) = Some (Inr ([textLeaf s], context))"
| "convertChildren depth rt env context (RNum n) =
     Some (Inr ([textLeaf (toString rt (VNum n))], context))"
| "convertEach depth rt env context [] = Some (Inr ([], context))"
| "convertEach depth rt env context (child # others) =
     (case convertChildren depth rt env context child of
        None \<Rightarrow> None
      | Some (Inl e) \<Rightarrow> Some (Inl e)
      | Some (Inr (nodes, context1)) \<Rightarrow>
          (case convertEach depth rt env context1 others of
             None \<Rightarrow> None
           | Some (Inl e) \<Rightarrow> Some (Inl e)
           | Some (Inr (following, context2)) \<Rightarrow> Some (Inr (nodes @ following, context2))))"

definition convertToPage :: "runtime \<Rightarrow> IRNode \<Rightarrow> error + IRPage" where
  "convertToPage rt node =
     (let sz = getOwn (node_props node) ''size'';
          margin = getOwn (node_props node) ''margin'';
          orientation = getOwn (node_props node) ''orientation'';
          resolved = resolvePageSize sz
      in case (if orientation = VStr ''landscape''
               then (case readProp resolved ''height'' of
                       Inl e \<Rightarrow> Inl e
                     | Inr h \<Rightarrow>
                         (case readProp resolved ''width'' of
                            Inl e \<Rightarrow> Inl e
                          | Inr w \<Rightarrow> Inr (VObj [(''width'', h), (''height'', w)])))
               else Inr resolved) of
           Inl e \<Rightarrow> Inl e
         | Inr pageSize \<Rightarrow>
             (case normalizeMargin rt margin of
                Inl e \<Rightarrow> Inl e
              | Inr m \<Rightarrow>
                  Inr \<lparr>page_size = pageSize, page_margin = m,
                       page_children = node_children node\<rparr>))"

fun convertPages :: "runtime \<Rightarrow> IRNode list \<Rightarrow> error + IRPage list" where
  "convertPages rt [] = Inr []"
| "convertPages rt (child # others) =
     (if node_type child = NodePage then
        (case convertToPage rt child of
           Inl e \<Rightarrow> Inl e
         | Inr page \<Rightarrow>
             (case convertPages rt others of Inl e \<Rightarrow> Inl e | Inr ps \<Rightarrow> Inr (page # ps)))
      else convertPages rt others)"

text \<open>
  \<^verbatim>\<open>weights.sort((a, b) => a - b)\<close>: ascending on numbers. Where a weight is \<open>NaN\<close>
  the comparator is not consistent and the order is the engine's; the model sorts by
  stable insertion, which need not be the order that an engine leaves then.
\<close>

definition numericLess :: "jsval \<Rightarrow> jsval \<Rightarrow> bool" where
  "numericLess a b = (case (a, b) of (VNum x, VNum y) \<Rightarrow> x < y | _ \<Rightarrow> False)"

fun insertNumeric :: "jsval \<Rightarrow> jsval list \<Rightarrow> jsval list" where
  "insertNumeric x [] = [x]"
| "insertNumeric x (y # ys) = (if numericLess x y then x # y # ys else y # insertNumeric x ys)"

definition sortNumeric :: "jsval list \<Rightarrow> jsval list" where
  "sortNumeric xs = foldl (\<lambda>sorted x. insertNumeric x sorted) [] xs"

definition defaultFontUsage :: IRFontUsage where
  "defaultFontUsage = \<lparr>family = ''Inter'', weights = [VNum 400], styles = [VStr ''normal'']\<rparr>"

definition reactToIR ::
  "nat \<Rightarrow> runtime \<Rightarrow> components \<Rightarrow> etype \<times> props \<Rightarrow> (error + IRDocument) option" where
  "reactToIR depth rt env element =
     (case convertElement depth rt env \<lparr>ctx_fonts = [], ctx_images = []\<rparr> element of
        None \<Rightarrow> None
      | Some (Inl e) \<Rightarrow> Some (Inl e)
      | Some (Inr (rootNode, context)) \<Rightarrow>
          (let meta =
                 (if node_type rootNode = NodeDocument \<and>
                     (truthy (getOwn (node_props rootNode) ''title'') \<or>
                      truthy (getOwn (node_props rootNode) ''author'') \<or>
                      truthy (getOwn (node_props rootNode) ''subject''))
                  then Some \<lparr>title = getOwn (node_props rootNode) ''title'',
                             author = getOwn (node_props rootNode) ''author'',
                             subject = getOwn (node_props rootNode) ''subject'',
                             creator = ''PaperFlow'', creationDate = now rt\<rparr>
                  else None);
               pageList =
                 (if node_type rootNode = NodeDocument
                  then convertPages rt (node_children rootNode)
                  else if node_type rootNode = NodePage
                  then (case convertToPage rt rootNode of
                          Inl e \<Rightarrow> Inl e
                        | Inr page \<Rightarrow> Inr [page])
                  else (case normalizeMargin rt (VNum 40) of
                          Inl e \<Rightarrow> Inl e
                        | Inr m \<Rightarrow>
                            Inr [\<lparr>page_size = getOwn PageSizes ''A4'', page_margin = m,
                                  page_children = [rootNode]\<rparr>]));
               tracked =
                 map (\<lambda>(fam, ws).
                        \<lparr>family = fam, weights = sortNumeric ws, styles = [VStr ''normal'']\<rparr>)
                   (ctx_fonts context)
           in case pageList of
                Inl e \<Rightarrow> Some (Inl e)
              | Inr ps \<Rightarrow>
                  Some (Inr \<lparr>version = 1, pages = ps,
                             fonts = (if tracked = [] then [defaultFontUsage] else tracked),
                             images = map snd (ctx_images context),
                             metadata = meta\<rparr>)))"

section \<open>Font loader (\<^verbatim>\<open>fonts/loader.ts\<close>)\<close>

datatype font_src = SrcUrl string | SrcBuffer "8 word list"

record FontConfig =
  config_family :: string
  config_weight :: jsval
  config_style :: jsval
  config_src :: font_src

record LoadedFont =
  font_family :: string
  font_weight :: jsval
  font_style :: jsval
  font_data :: "8 word list"

definition GOOGLE_FONTS_CSS_URL :: string where
  "GOOGLE_FONTS_CSS_URL = ''https://fonts.googleapis.com/css2''"

definition BUILT_IN_FONTS :: "(string \<times> jsval) list" where
  "BUILT_IN_FONTS =
     [(''inter'', VStr ''Inter''), (''roboto'', VStr ''Roboto''),
      (''open-sans'', VStr ''Open+Sans''), (''opensans'', VStr ''Open+Sans''),
      (''lato'', VStr ''Lato''), (''poppins'', VStr ''Poppins''),
      (''montserrat'', VStr ''Montserrat''), (''nunito'', VStr ''Nunito''),
      (''raleway'', VStr ''Raleway''), (''ubuntu'', VStr ''Ubuntu''),
      (''plus-jakarta-sans'', VStr ''Plus+Jakarta+Sans''),
      (''plusjakartasans'', VStr ''Plus+Jakarta+Sans''), (''dm-sans'', VStr ''DM+Sans''),
      (''dmsans'', VStr ''DM+Sans''), (''source-sans-pro'', VStr ''Source+Sans+Pro''),
      (''work-sans'', VStr ''Work+Sans''), (''nunito-sans'', VStr ''Nunito+Sans''),
      (''merriweather'', VStr ''Merriweather''),
      (''playfair-display'', VStr ''Playfair+Display''), (''lora'', VStr ''Lora''),
      (''pt-serif'', VStr ''PT+Serif''), (''source-serif-pro'', VStr ''Source+Serif+Pro''),
      (''crimson-text'', VStr ''Crimson+Text''), (''fira-code'', VStr ''Fira+Code''),
      (''jetbrains-mono'', VStr ''JetBrains+Mono''),
      (''source-code-pro'', VStr ''Source+Code+Pro''),
      (''roboto-mono'', VStr ''Roboto+Mono''), (''ibm-plex-mono'', VStr ''IBM+Plex+Mono'')]"

definition DEFAULT_FONT :: string where
  "DEFAULT_FONT = ''Inter''"

text \<open>The module state: the font cache and the fonts the user registered.\<close>

record font_state =
  fontCache :: "(string \<times> 8 word list) list"
  customFonts :: "(string \<times> FontConfig list) list"

definition clearFontCache :: "font_state \<Rightarrow> font_state" where
  "clearFontCache st = st\<lparr>fontCache := []\<rparr>"

text \<open>
  \<^verbatim>\<open>normalizeFamily\<close>: remove the quotes, lower the case, trim, and put one hyphen for
  every run of white space.
\<close>

definition normalizeFamily :: "string \<Rightarrow> string" where
  "normalizeFamily fam = joinWith ''-'' (splitWhitespace (trim (toLowerCase (stripQuotes fam))))"

definition registerFont :: "FontConfig \<Rightarrow> font_state \<Rightarrow> font_state" where
  "registerFont config st =
     (let fam = normalizeFamily (config_family config);
          existing = (case map_of (customFonts st) fam of Some fs \<Rightarrow> fs | None \<Rightarrow> [])
      in st\<lparr>customFonts := AList.update fam (existing @ [config]) (customFonts st)\<rparr>)"

definition weightMap :: "(string \<times> jsval) list" where
  "weightMap =
     [(''thin'', VNum 100), (''hairline'', VNum 100), (''extralight'', VNum 200),
      (''ultralight'', VNum 200), (''light'', VNum 300), (''normal'', VNum 400),
      (''regular'', VNum 400), (''medium'', VNum 500), (''semibold'', VNum 600),
      (''demibold'', VNum 600), (''bold'', VNum 700), (''extrabold'', VNum 800),
      (''ultrabold'', VNum 800), (''black'', VNum 900), (''heavy'', VNum 900)]"

definition normalizeWeight :: "jsval \<Rightarrow> error + jsval" where
  "normalizeWeight weight =
     (if weight = VUndef then Inr VUndef
      else if isNumber weight then Inr weight
      else case weight of
        VStr w \<Rightarrow>
          Inr (orElse (recordGet weightMap (toLowerCase w))
                 (if truthy (parseInt10 w) then parseInt10 w else VNum 400))
      | _ \<Rightarrow> Inl TypeError)"

definition findCustomFont :: "font_state \<Rightarrow> string \<Rightarrow> jsval \<Rightarrow> jsval \<Rightarrow> FontConfig option" where
  "findCustomFont st fam weight style =
     (case map_of (customFonts st) fam of
        None \<Rightarrow> None
      | Some fs \<Rightarrow>
          (case filter (\<lambda>f. strictEquals (orElse (config_weight f) (VNum 400)) weight \<and>
                            strictEquals (orElse (config_style f) (VStr ''normal'')) style)
                  fs of
             exact # others \<Rightarrow> Some exact
           | [] \<Rightarrow> (case fs of [] \<Rightarrow> None | first # others \<Rightarrow> Some first)))"

text \<open>A rejected \<^verbatim>\<open>fetch\<close> is the platform's \<^verbatim>\<open>TypeError\<close>.\<close>

definition resolveCustomFontData :: "runtime \<Rightarrow> FontConfig \<Rightarrow> error + 8 word list" where
  "resolveCustomFontData rt config =
     (case config_src config of
        SrcBuffer data \<Rightarrow> Inr data
      | SrcUrl url \<Rightarrow>
          (case fetch rt url of
             None \<Rightarrow> Inl TypeError
           | Some response \<Rightarrow>
               if \<not> ok response then Inl (PaperFlowError FONT_FETCH_ERROR)
               else Inr (body response)))"

definition capitalizeWords :: "string \<Rightarrow> string" where
  "capitalizeWords str =
     joinWith '' ''
       (map (\<lambda>word. toUpperCase (take 1 word) @ toLowerCase (drop 1 word))
          (splitChar CHR '' '' str))"

text \<open>
  The pattern \<^verbatim>\<open>/url\(([^)]+\.(woff2|ttf|otf)[^)]*)\)/\<close>: the first \<^verbatim>\<open>url(\<close> whose text
  up to the next closing parenthesis holds one of the three extensions after at least one
  character; the group is that text.
\<close>

definition hasFontExtension :: "string \<Rightarrow> bool" where
  "hasFontExtension seg =
     (includes_of (drop 1 seg) ''.woff2'' \<or> includes_of (drop 1 seg) ''.ttf'' \<or>
      includes_of (drop 1 seg) ''.otf'')"

fun matchFontUrl :: "string \<Rightarrow> string option" where
  "matchFontUrl [] = None"
| "matchFontUrl (c # cs) =
     (let seg = takeWhile (\<lambda>x. x \<noteq> CHR '')'') (drop 4 (c # cs)) in
      if startsWith (c # cs) ''url('' \<and> length seg < length (drop 4 (c # cs)) \<and>
         hasFontExtension seg
      then Some seg else matchFontUrl cs)"

definition bodyText :: "http_response \<Rightarrow> string" where
  "bodyText response = map (\<lambda>b. char_of (unat b)) (body response)"

text \<open>
  \<^verbatim>\<open>loadFromGoogleFonts\<close>: \<open>None\<close> when it throws; its caller turns every failure into
  the same error.
\<close>

definition loadFromGoogleFonts :: "runtime \<Rightarrow> string \<Rightarrow> jsval \<Rightarrow> jsval \<Rightarrow> 8 word list option" where
  "loadFromGoogleFonts rt fam weight style =
     (let googleFontName =
            orElse (recordGet BUILT_IN_FONTS fam)
              (VStr (map (\<lambda>c. if c = CHR '' '' then CHR ''+'' else c)
                 (capitalizeWords (map (\<lambda>c. if c = CHR ''-'' then CHR '' '' else c) fam))));
          italic = (if style = VStr ''italic'' then ''ital,'' else []);
          cssUrl = GOOGLE_FONTS_CSS_URL @ ''?family='' @ toString rt googleFontName @ '':'' @
                   italic @ ''wght@'' @ (if style = VStr ''italic'' then ''1,'' else []) @
                   toString rt weight @ ''&display=swap''
      in case fetch rt cssUrl of
           None \<Rightarrow> None
         | Some cssResponse \<Rightarrow>
             if \<not> ok cssResponse then None
             else (case matchFontUrl (bodyText cssResponse) of
                     None \<Rightarrow> None
                   | Some urlGroup \<Rightarrow>
                       (case fetch rt (stripQuotes urlGroup) of
                          None \<Rightarrow> None
                        | Some fontResponse \<Rightarrow>
                            if \<not> ok fontResponse then None else Some (body fontResponse))))"

definition cacheKeyOf :: "runtime \<Rightarrow> string \<Rightarrow> jsval \<Rightarrow> jsval \<Rightarrow> string" where
  "cacheKeyOf rt normalizedFamily weight style =
     normalizedFamily @ ''-'' @ toString rt weight @ ''-'' @ toString rt style"

text \<open>
  \<^verbatim>\<open>loadFont(family, weight = 400, style = 'normal')\<close>: a default stands in for an
  argument that is \<^verbatim>\<open>undefined\<close>.
\<close>

definition loadFont ::
  "runtime \<Rightarrow> font_state \<Rightarrow> string \<Rightarrow> jsval \<Rightarrow> jsval \<Rightarrow> (error + LoadedFont) \<times> font_state" where
  "loadFont rt st fam weight0 style0 =
     (let weight = (if weight0 = VUndef then VNum 400 else weight0);
          style = (if style0 = VUndef then VStr ''normal'' else style0);
          normalizedFamily = normalizeFamily fam;
          cacheKey = cacheKeyOf rt normalizedFamily weight style
      in case map_of (fontCache st) cacheKey of
           Some cached \<Rightarrow>
             (Inr \<lparr>font_family = normalizedFamily, font_weight = weight, font_style = style,
                   font_data = cached\<rparr>, st)
         | None \<Rightarrow>
             (case findCustomFont st normalizedFamily weight style of
                Some customFont \<Rightarrow>
                  (case resolveCustomFontData rt customFont of
                     Inl e \<Rightarrow> (Inl e, st)
                   | Inr data \<Rightarrow>
                       (Inr \<lparr>font_family = normalizedFamily, font_weight = weight,
                             font_style = style, font_data = data\<rparr>,
                        st\<lparr>fontCache := AList.update cacheKey data (fontCache st)\<rparr>))
              | None \<Rightarrow>
                  (case loadFromGoogleFonts rt normalizedFamily weight style of
                     None \<Rightarrow> (Inl (PaperFlowError FONT_LOAD_FAILED), st)
                   | Some data \<Rightarrow>
                       (Inr \<lparr>font_family = normalizedFamily, font_weight = weight,
                             font_style = style, font_data = data\<rparr>,
                        st\<lparr>fontCache := AList.update cacheKey data (fontCache st)\<rparr>))))"

text \<open>
  \<^verbatim>\<open>detectFontsFromIR\<close>. The map from family to its weights and styles is kept in
  insertion order. \<open>walk\<close> is the inner function: \<open>noteFont\<close> is what it does for the
  node's own style, \<open>walkEach\<close> its loop over the children.
\<close>

definition noteFont :: "(string \<times> jsval) list \<Rightarrow> (string \<times> jsval list \<times> jsval list) list \<Rightarrow>
    error + (string \<times> jsval list \<times> jsval list) list" where
  "noteFont style fontMap =
     (if truthy (getOwn style ''fontFamily'') then
        (case getOwn style ''fontFamily'' of
           VStr fam \<Rightarrow>
             (case normalizeWeight (getOwn style ''fontWeight'') of
                Inl e \<Rightarrow> Inl e
              | Inr w \<Rightarrow>
                  (let normalizedFamily = normalizeFamily fam;
                       weight = orElse w (VNum 400);
                       fontStyle = orElse (getOwn style ''fontStyle'') (VStr ''normal'');
                       fontMap1 =
                         (if map_of fontMap normalizedFamily = None
                          then fontMap @ [(normalizedFamily, ([], []))] else fontMap)
                   in Inr (AList.map_entry normalizedFamily
                             (\<lambda>(ws, ss). (setAdd ws weight, setAdd ss fontStyle))
                             fontMap1)))
         | _ \<Rightarrow> Inl TypeError)
      else Inr fontMap)"

fun walk :: "IRNode \<Rightarrow> (string \<times> jsval list \<times> jsval list) list \<Rightarrow>
      error + (string \<times> jsval list \<times> jsval list) list"
  and walkEach :: "IRNode list \<Rightarrow> (string \<times> jsval list \<times> jsval list) list \<Rightarrow>
      error + (string \<times> jsval list \<times> jsval list) list"
where
  "walk (IRNode type props style children) fontMap =
     (case noteFont style fontMap of
        Inl e \<Rightarrow> Inl e
      | Inr fontMap1 \<Rightarrow> walkEach children fontMap1)"
| "walkEach [] fontMap = Inr fontMap"
| "walkEach (child # others) fontMap =
     (case walk child fontMap of
        Inl e \<Rightarrow> Inl e
      | Inr fontMap1 \<Rightarrow> walkEach others fontMap1)"

fun walkPages :: "IRPage list \<Rightarrow> (string \<times> jsval list \<times> jsval list) list \<Rightarrow>
      error + (string \<times> jsval list \<times> jsval list) list" where
  "walkPages [] fontMap = Inr fontMap"
| "walkPages (page # others) fontMap =
     (case walkEach (page_children page) fontMap of
        Inl e \<Rightarrow> Inl e
      | Inr fontMap1 \<Rightarrow> walkPages others fontMap1)"

definition detectFontsFromIR :: "IRDocument \<Rightarrow> error + IRFontUsage list" where
  "detectFontsFromIR ir =
     (case walkPages (pages ir) [] of
        Inl e \<Rightarrow> Inl e
      | Inr fontMap \<Rightarrow>
          (let fontMap1 =
                 (if fontMap = []
                  then [(normalizeFamily DEFAULT_FONT, ([VNum 400], [VStr ''normal'']))]
                  else fontMap)
           in Inr (map (\<lambda>(fam, ws, ss).
                          \<lparr>family = fam, weights = sortNumeric ws, styles = ss\<rparr>)
                     fontMap1)))"

text \<open>
  \<^verbatim>\<open>loadFontsForDocument\<close>. Every \<^verbatim>\<open>loadFont\<close> call of the loops reads the cache before
  the first of them gets to write it, since each runs up to its first \<^verbatim>\<open>await\<close> when
  it is called; so every request is settled against the state at the call. The cache
  after the call holds the data of every request that succeeded.
\<close>

definition fontRequests :: "IRFontUsage list \<Rightarrow> (string \<times> jsval \<times> jsval) list" where
  "fontRequests usage =
     concat (map (\<lambda>u. concat (map (\<lambda>weight. map (\<lambda>style. (family u, weight, style)) (styles u))
                                  (weights u))) usage)"

definition settleAll ::
  "runtime \<Rightarrow> font_state \<Rightarrow> (string \<times> jsval \<times> jsval) list \<Rightarrow> (error + LoadedFont) list" where
  "settleAll rt st reqs =
     map (\<lambda>(fam, weight, style). fst (loadFont rt st fam weight style)) reqs"

definition cacheAfter ::
  "runtime \<Rightarrow> font_state \<Rightarrow> (string \<times> jsval \<times> jsval) list \<Rightarrow> font_state" where
  "cacheAfter rt st reqs =
     fold (\<lambda>(fam, weight, style) acc.
             case fst (loadFont rt st fam weight style) of
               Inr font \<Rightarrow>
                 acc\<lparr>fontCache :=
                       AList.update
                         (cacheKeyOf rt (font_family font) (font_weight font) (font_style font))
                         (font_data font) (fontCache acc)\<rparr>
             | Inl e \<Rightarrow> acc)
       reqs st"

definition loadFontsForDocument ::
  "runtime \<Rightarrow> font_state \<Rightarrow> IRDocument \<Rightarrow> (error + LoadedFont list) \<times> font_state" where
  "loadFontsForDocument rt st ir =
     (case detectFontsFromIR ir of
        Inl e \<Rightarrow> (Inl e, st)
      | Inr usage \<Rightarrow>
          (let results = settleAll rt st (fontRequests usage);
               loaded = concat (map (\<lambda>r. case r of Inr font \<Rightarrow> [font] | Inl e \<Rightarrow> []) results);
               errors = concat (map (\<lambda>r. case r of Inl e \<Rightarrow> [e] | Inr font \<Rightarrow> []) results)
           in case errors of
                first # others \<Rightarrow>
                  if loaded = [] then (Inl first, cacheAfter rt st (fontRequests usage))
                  else (Inr loaded, cacheAfter rt st (fontRequests usage))
              | [] \<Rightarrow> (Inr loaded, cacheAfter rt st (fontRequests usage))))"

section \<open>Notions used to state the properties\<close>

text \<open>What a class token assigns to a property when it is parsed alone, if anything.\<close>

definition tokenValue :: "runtime \<Rightarrow> string \<Rightarrow> string \<Rightarrow> jsval option" where
  "tokenValue rt cls p = map_of (parseClass rt cls []) p"

text \<open>A style transformer that only assigns properties, whatever the style it is given.\<close>

definition onlyAssigns :: "((string \<times> jsval) list \<Rightarrow> (string \<times> jsval) list) \<Rightarrow> bool" where
  "onlyAssigns f = (\<exists>as. \<forall>style. f style = fold (\<lambda>(k, v). setProp k v) as style)"

text \<open>What a component returned: an element at all, an element of a function component.\<close>

definition isElement :: "rnode \<Rightarrow> bool" where
  "isElement n = (case n of RElem t p \<Rightarrow> True | _ \<Rightarrow> False)"

definition isComposite :: "rnode \<Rightarrow> bool" where
  "isComposite n = (case n of RElem (Comp fn) p \<Rightarrow> True | _ \<Rightarrow> False)"

text \<open>
  How deep elements nest in an element tree, and whether every element of the tree has a
  string type, so that no component is called to convert it.
\<close>

fun nesting :: "rnode \<Rightarrow> nat"
  and nestingEach :: "rnode list \<Rightarrow> nat"
where
  "nesting (RElem t (Props cn st ch others)) = Suc (nesting ch)"
| "nesting (RArr children) = nestingEach children"
| "nesting RNull = 0"
| "nesting RUndef = 0"
| "nesting (RBool b) = 0"
| "nesting (RStr s) = 0"
| "nesting (RNum n) = 0"
| "nestingEach [] = 0"
| "nestingEach (child # others) = max (nesting child) (nestingEach others)"

fun primitiveOnly :: "rnode \<Rightarrow> bool"
  and primitiveOnlyEach :: "rnode list \<Rightarrow> bool"
where
  "primitiveOnly (RElem t (Props cn st ch others)) =
     (case t of Tag tag \<Rightarrow> primitiveOnly ch | Comp fn \<Rightarrow> False)"
| "primitiveOnly (RArr children) = primitiveOnlyEach children"
| "primitiveOnly RNull = True"
| "primitiveOnly RUndef = True"
| "primitiveOnly (RBool b) = True"
| "primitiveOnly (RStr s) = True"
| "primitiveOnly (RNum n) = True"
| "primitiveOnlyEach [] = True"
| "primitiveOnlyEach (child # others) = (primitiveOnly child \<and> primitiveOnlyEach others)"

text \<open>
  One pass of the loop of \<^verbatim>\<open>unwrapElement\<close>: the element that a component returned and
  that the loop goes on with, or nothing where the loop ends (at a primitive element, or
  at a component that returned no element). \<open>expansion n\<close> is the element after \<open>n\<close>
  passes, if the loop makes that many.
\<close>

definition expandOnce :: "components \<Rightarrow> etype \<times> props \<Rightarrow> (etype \<times> props) option" where
  "expandOnce env current =
     (case fst current of
        Comp fn \<Rightarrow>
          (case env fn (snd current) of
             RElem t p \<Rightarrow> Some (t, p)
           | _ \<Rightarrow> None)
      | Tag tag \<Rightarrow> None)"

fun expansion :: "nat \<Rightarrow> components \<Rightarrow> etype \<times> props \<Rightarrow> (etype \<times> props) option" where
  "expansion 0 env current = Some current"
| "expansion (Suc n) env current =
     (case expandOnce env current of
        None \<Rightarrow> None
      | Some following \<Rightarrow> expansion n env following)"

text \<open>
  A table in which every component renders an element of its own type, as
  \<^verbatim>\<open>function Loop(props) { return <Loop {...props} />; }\<close> does.
\<close>

definition loopForever :: components where
  "loopForever name p = RElem (Comp name) p"

text \<open>
  The six exported components together with
  \<^verbatim>\<open>function Loop(props) { return <Loop {...props} />; }\<close>.
\<close>

definition withLoop :: components where
  "withLoop name p = (if name = ''Loop'' then RElem (Comp ''Loop'') p else paperflowComponents name p)"

text \<open>
  \<^verbatim>\<open><Document><Page><Text>Hello</Text></Page></Document>\<close>, and a page with two texts whose
  font families differ in case only.
\<close>

definition helloTree :: "etype \<times> props" where
  "helloTree =
     (Comp ''Document'',
      Props None None
        (RElem (Comp ''Page'')
           (Props None None (RElem (Comp ''Text'') (Props None None (RStr ''Hello'') [])) []))
        [])"

definition caseTree :: "etype \<times> props" where
  "caseTree =
     (Comp ''Document'',
      Props None None
        (RElem (Comp ''Page'')
           (Props None None
              (RArr
                 [RElem (Comp ''Text'')
                    (Props None (Some [(''fontFamily'', VStr ''Inter'')]) (RStr ''a'') []),
                  RElem (Comp ''Text'')
                    (Props None (Some [(''fontFamily'', VStr ''inter'')]) (RStr ''b'') [])])
              []))
        [])"


text \<open>Every family of a font map has a weight and a style.\<close>

definition populated :: "(string \<times> jsval list \<times> jsval list) list \<Rightarrow> bool" where
  "populated fontMap = list_all (\<lambda>(fam, ws, ss). ws \<noteq> [] \<and> ss \<noteq> []) fontMap"

text \<open>The page that the conversion of \<open>helloTree\<close> yields.\<close>

definition helloPage :: IRPage where
  "helloPage =
     \<lparr>page_size = VObj [(''width'', VNum 595.28), (''height'', VNum 841.89)],
      page_margin = \<lparr>margin_top = VNum 40, margin_right = VNum 40, margin_bottom = VNum 40,
                      margin_left = VNum 40\<rparr>,
      page_children =
        [IRNode NodeText [(''wrap'', VBool True)] []
           [IRNode NodeText [(''content'', VStr ''Hello'')] [] []]]\<rparr>"



definition twoFamiliesDocument :: IRDocument where
  "twoFamiliesDocument =
     \<lparr>version = 1,
      pages =
        [\<lparr>page_size = VObj [(''width'', VNum 612), (''height'', VNum 792)],
          page_margin = \<lparr>margin_top = VNum 0, margin_right = VNum 0, margin_bottom = VNum 0,
                          margin_left = VNum 0\<rparr>,
          page_children =
            [IRNode NodeText [] [(''fontFamily'', VStr ''Inter'')] [textLeaf ''a''],
             IRNode NodeText [] [(''fontFamily'', VStr ''Roboto'')] [textLeaf ''b'']]\<rparr>],
      fonts = [], images = [], metadata = None\<rparr>"

definition interRegistered :: font_state where
  "interRegistered =
     registerFont
       \<lparr>config_family = ''Inter'', config_weight = VNum 400, config_style = VStr ''normal'',
        config_src = SrcBuffer [0, 1, 0, 0]\<rparr>
       \<lparr>fontCache = [], customFonts = []\<rparr>"

definition interFont :: LoadedFont where
  "interFont =
     \<lparr>font_family = ''inter'', font_weight = VNum 400, font_style = VStr ''normal'',
      font_data = [0, 1, 0, 0]\<rparr>"

definition defaultUsage :: IRFontUsage where
  "defaultUsage = \<lparr>family = ''inter'', weights = [VNum 400], styles = [VStr ''normal'']\<rparr>"

text \<open>
  Registries for the two families of \<open>twoFamiliesDocument\<close>: both fonts registered with
  their data, and Inter registered by a URL, which the example runtime cannot fetch.
\<close>

definition robotoFont :: LoadedFont where
  "robotoFont =
     \<lparr>font_family = ''roboto'', font_weight = VNum 400, font_style = VStr ''normal'',
      font_data = [0, 1, 0, 1]\<rparr>"

definition bothRegistered :: font_state where
  "bothRegistered =
     registerFont
       \<lparr>config_family = ''Roboto'', config_weight = VNum 400, config_style = VStr ''normal'',
        config_src = SrcBuffer [0, 1, 0, 1]\<rparr>
       interRegistered"

definition interByUrl :: font_state where
  "interByUrl =
     registerFont
       \<lparr>config_family = ''Inter'', config_weight = VNum 400, config_style = VStr ''normal'',
        config_src = SrcUrl ''https://fonts.example/inter.woff2''\<rparr>
       \<lparr>fontCache = [], customFonts = []\<rparr>"

section \<open>Properties of the image loader\<close>

lemma byteAt_drop: "byteAt (drop k arr) i = byteAt arr (k + i)"
  by (auto simp: byteAt_def)

lemma take3_byteAt:
  "(take 3 arr = [a, b, c]) =
   (byteAt arr 0 = Some a \<and> byteAt arr 1 = Some b \<and> byteAt arr 2 = Some c)"
  apply (cases arr; simp add: byteAt_def)
  subgoal for x xs
    apply (cases xs; simp)
    subgoal for y ys by (cases ys; auto)
    done
  done

lemma take4_byteAt:
  "(take 4 arr = [a, b, c, d]) =
   (byteAt arr 0 = Some a \<and> byteAt arr 1 = Some b \<and> byteAt arr 2 = Some c \<and>
    byteAt arr 3 = Some d)"
  apply (cases arr; simp add: byteAt_def)
  subgoal for x xs
    apply (cases xs; simp)
    subgoal for y ys
      apply (cases ys; simp)
      subgoal for z zs by (cases zs; auto)
      done
    done
  done

lemma hasSignature4:
  "hasSignature arr k [a, b, c, d] =
   (byteAt arr k = Some a \<and> byteAt arr (k + 1) = Some b \<and> byteAt arr (k + 2) = Some c \<and>
    byteAt arr (k + 3) = Some d)"
  using take4_byteAt [of "drop k arr" a b c d]
  by (simp add: hasSignature_def byteAt_drop numeral_eq_Suc)

lemma hasSignature3_0:
  "hasSignature arr 0 [a, b, c] =
   (byteAt arr 0 = Some a \<and> byteAt arr 1 = Some b \<and> byteAt arr 2 = Some c)"
  using take3_byteAt [of arr a b c] by (simp add: hasSignature_def numeral_eq_Suc)

lemma hasSignature4_0:
  "hasSignature arr 0 [a, b, c, d] =
   (byteAt arr 0 = Some a \<and> byteAt arr 1 = Some b \<and> byteAt arr 2 = Some c \<and>
    byteAt arr 3 = Some d)"
  using hasSignature4 [of arr 0 a b c d] by (simp add: numeral_2_eq_2)

lemma hasSignature4_8:
  "hasSignature arr 8 [a, b, c, d] =
   (byteAt arr 8 = Some a \<and> byteAt arr 9 = Some b \<and> byteAt arr 10 = Some c \<and>
    byteAt arr 11 = Some d)"
  using hasSignature4 [of arr 8 a b c d] by simp

text \<open>
  Claim C9. Byte-buffer format detection classifies every buffer beginning with
  89 50 4E 47 as png, with FF D8 FF as jpeg, with 52 49 46 46 and 57 45 42 50 at offset 8 as
  webp, and with 47 49 46 38 as gif; a buffer that matches none of these signatures and
  fails the SVG leading-markup text check raises the unknown-image-format error.
\<close>

theorem detectImageFormat_signatures:
  "(hasSignature arr 0 [0x89, 0x50, 0x4e, 0x47] \<longrightarrow> detectImageFormat arr = Inr PNG) \<and>
   (hasSignature arr 0 [0xff, 0xd8, 0xff] \<longrightarrow> detectImageFormat arr = Inr JPEG) \<and>
   (hasSignature arr 0 [0x52, 0x49, 0x46, 0x46] \<and> hasSignature arr 8 [0x57, 0x45, 0x42, 0x50]
      \<longrightarrow> detectImageFormat arr = Inr WEBP) \<and>
   (hasSignature arr 0 [0x47, 0x49, 0x46, 0x38] \<longrightarrow> detectImageFormat arr = Inr GIF) \<and>
   (\<not> hasSignature arr 0 [0x89, 0x50, 0x4e, 0x47] \<and>
    \<not> hasSignature arr 0 [0xff, 0xd8, 0xff] \<and>
    \<not> (hasSignature arr 0 [0x52, 0x49, 0x46, 0x46] \<and>
       hasSignature arr 8 [0x57, 0x45, 0x42, 0x50]) \<and>
    \<not> hasSignature arr 0 [0x47, 0x49, 0x46, 0x38] \<and>
    \<not> decodedIncludes arr ''<?xml'' \<and> \<not> decodedIncludes arr ''<svg''
      \<longrightarrow> detectImageFormat arr = Inl (PaperFlowError UNKNOWN_IMAGE_FORMAT))"
  unfolding hasSignature4_0 hasSignature4_8 hasSignature3_0 detectImageFormat_def by auto

theorem detectImageFormat_signatures_witness:
  "detectImageFormat [0x89, 0x50, 0x4e, 0x47, 0x0d] = Inr PNG \<and>
   detectImageFormat [0xff, 0xd8, 0xff, 0xe0] = Inr JPEG \<and>
   detectImageFormat [0x52, 0x49, 0x46, 0x46, 0, 0, 0, 0, 0x57, 0x45, 0x42, 0x50] = Inr WEBP \<and>
   detectImageFormat [0x47, 0x49, 0x46, 0x38, 0x39] = Inr GIF \<and>
   detectImageFormat [0x00, 0x01, 0x02] = Inl (PaperFlowError UNKNOWN_IMAGE_FORMAT)"
  using detectImageFormat_signatures [of "[0x89, 0x50, 0x4e, 0x47, 0x0d]"]
    detectImageFormat_signatures [of "[0xff, 0xd8, 0xff, 0xe0]"]
    detectImageFormat_signatures
      [of "[0x52, 0x49, 0x46, 0x46, 0, 0, 0, 0, 0x57, 0x45, 0x42, 0x50]"]
    detectImageFormat_signatures [of "[0x47, 0x49, 0x46, 0x38, 0x39]"]
    detectImageFormat_signatures [of "[0x00, 0x01, 0x02]"]
  by (simp add: hasSignature_def decodedIncludes_def asciiBytes_def)

text \<open>
  Claim C7. For every image source string that starts with neither \<^verbatim>\<open>http://\<close>,
  \<^verbatim>\<open>https://\<close> nor \<^verbatim>\<open>data:\<close>, \<open>loadImage\<close> raises the local-file-not-supported error
  and performs no fetch: the cache and the list of requests issued are as before the call.
\<close>

theorem loadImage_local_path_rejected:
  "\<not> startsWith src ''http://'' \<Longrightarrow> \<not> startsWith src ''https://'' \<Longrightarrow>
   \<not> startsWith src ''data:'' \<Longrightarrow>
   loadImage rt st (VStr src) = (Inl (PaperFlowError LOCAL_FILE_NOT_SUPPORTED), st) \<and>
   requests (snd (loadImage rt st (VStr src))) = requests st"
  by simp

theorem loadImage_local_path_rejected_witness:
  "\<not> startsWith ''./logo.png'' ''http://'' \<and> \<not> startsWith ''./logo.png'' ''https://'' \<and>
   \<not> startsWith ''./logo.png'' ''data:'' \<and>
   loadImage exampleRuntime
     \<lparr>imageCache = [], requests = []\<rparr> (VStr ''./logo.png'') =
   (Inl (PaperFlowError LOCAL_FILE_NOT_SUPPORTED), \<lparr>imageCache = [], requests = []\<rparr>)"
  using loadImage_local_path_rejected [of "''./logo.png''"
      exampleRuntime "\<lparr>imageCache = [], requests = []\<rparr>"]
  by (simp add: startsWith_def)

lemma matchDataUri_svg_xml:
  "matchDataUri (''data:image/svg+xml;base64,'' @ payload) = None"
  by (simp add: matchDataUri_def startsWith_def isWordChar_def)

text \<open>
  Claim C10. For every data URI of the form \<^verbatim>\<open>data:image/svg+xml;base64,<payload>\<close>,
  \<open>loadImage\<close> raises the invalid-base64-image error, since the word-character group of the
  pattern stops at the \<^verbatim>\<open>+\<close>; yet the loader's own format normalization accepts
  \<^verbatim>\<open>svg+xml\<close> as SVG.
\<close>

theorem loadImage_svg_xml_data_uri:
  "loadImage rt st (VStr (''data:image/svg+xml;base64,'' @ payload)) =
     (Inl (PaperFlowError INVALID_BASE64_IMAGE), st) \<and>
   normalizeFormat ''svg+xml'' = SVG"
  using matchDataUri_svg_xml [of payload]
  by (simp add: loadFromDataUri_def startsWith_def normalizeFormat_def toLowerCase_def
      toLowerChar_def)

section \<open>Properties of the utility-class parser\<close>

lemma onlyAssigns_id: "onlyAssigns (\<lambda>style. style)"
  unfolding onlyAssigns_def by (rule exI [of _ "[]"]) simp

lemma onlyAssigns_set:
  assumes "onlyAssigns f"
  shows "onlyAssigns (\<lambda>style. setProp k v (f style))"
proof -
  from assms obtain as where as: "\<And>style. f style = fold (\<lambda>(k, v). setProp k v) as style"
    unfolding onlyAssigns_def by blast
  have "\<forall>style. setProp k v (f style) = fold (\<lambda>(k, v). setProp k v) (as @ [(k, v)]) style"
    by (simp add: as)
  then show ?thesis unfolding onlyAssigns_def by blast
qed

lemma onlyAssigns_if:
  assumes "c \<Longrightarrow> onlyAssigns f" and "\<not> c \<Longrightarrow> onlyAssigns g"
  shows "onlyAssigns (\<lambda>style. if c then f style else g style)"
  using assms by (cases c) simp_all

text \<open>Every branch of \<open>parseClass\<close> assigns and never reads the style.\<close>

lemma parseClass_onlyAssigns: "onlyAssigns (parseClass rt cls)"
  unfolding parseClass_def [abs_def] Let_def
  by (intro onlyAssigns_if onlyAssigns_set onlyAssigns_id)

lemma map_of_setProp: "map_of (setProp k v obj) = (map_of obj)(k \<mapsto> v)"
  by (simp add: setProp_def update_conv')

lemma map_of_fold_setProp:
  "map_of (fold (\<lambda>(k, v). setProp k v) as style) = map_of style ++ map_of (rev as)"
proof (induction as arbitrary: style)
  case Nil
  show ?case by simp
next
  case (Cons a as)
  obtain k v where a: "a = (k, v)" by (cases a)
  have "map_of (fold (\<lambda>(k, v). setProp k v) as (setProp k v style)) =
      map_of (setProp k v style) ++ map_of (rev as)"
    by (rule Cons.IH)
  then show ?case
    by (auto simp: a map_of_setProp map_add_def fun_eq_iff split: option.split)
qed

lemma parseClass_map_of:
  "map_of (parseClass rt cls style) = map_of style ++ map_of (parseClass rt cls [])"
proof -
  from parseClass_onlyAssigns [of rt cls]
  obtain as where as: "\<And>style. parseClass rt cls style = fold (\<lambda>(k, v). setProp k v) as style"
    unfolding onlyAssigns_def by blast
  show ?thesis by (simp add: as map_of_fold_setProp)
qed

lemma parseClass_lookup:
  "map_of (parseClass rt cls style) p =
   (case tokenValue rt cls p of None \<Rightarrow> map_of style p | Some v \<Rightarrow> Some v)"
  by (subst parseClass_map_of) (simp add: tokenValue_def map_add_def)

lemma fold_parseClass_unset:
  "list_all (\<lambda>c. tokenValue rt c p = None) cs \<Longrightarrow>
   map_of (fold (\<lambda>cls style. parseClass rt cls style) cs style) p = map_of style p"
  by (induction cs arbitrary: style) (simp_all add: parseClass_lookup)

text \<open>
  Claim C8. For every utility-class string and every style property: when tokens of the
  string set that property, the resulting style map carries the value of the last of them
  in the string, whatever the other tokens are; and a property that no token sets is not
  in the map. So tokens that set different properties add up to the union of their
  effects.
\<close>

theorem parseTailwindClasses_later_token_wins:
  "(classTokens className = before @ [cls] @ after \<and> tokenValue rt cls p = Some v \<and>
    list_all (\<lambda>c. tokenValue rt c p = None) after
      \<longrightarrow> map_of (parseTailwindClasses rt className) p = Some v) \<and>
   (list_all (\<lambda>c. tokenValue rt c p = None) (classTokens className)
      \<longrightarrow> map_of (parseTailwindClasses rt className) p = None)"
proof (intro conjI impI)
  assume h: "classTokens className = before @ [cls] @ after \<and> tokenValue rt cls p = Some v \<and>
    list_all (\<lambda>c. tokenValue rt c p = None) after"
  then have ne: "className \<noteq> []"
    by (auto simp: classTokens_def splitWhitespace_def)
  from h show "map_of (parseTailwindClasses rt className) p = Some v"
    by (simp add: parseTailwindClasses_def ne fold_parseClass_unset parseClass_lookup)
next
  assume "list_all (\<lambda>c. tokenValue rt c p = None) (classTokens className)"
  then show "map_of (parseTailwindClasses rt className) p = None"
    by (simp add: parseTailwindClasses_def fold_parseClass_unset)
qed

lemma example_tokens:
  "classTokens ''text-black text-white p-4'' = [''text-black''] @ [''text-white''] @ [''p-4'']"
  by (simp add: classTokens_def splitWhitespace_def isSpace_def)

lemma example_text_white:
  "tokenValue exampleRuntime ''text-white'' ''color'' = Some (VStr ''#ffffff'')"
  by (simp add: tokenValue_def parseClass_def startsWith_def recordGet_def setProp_def
      FONT_SIZES_def COLORS_def FONT_WEIGHTS_def SPACING_def objectPrototypeKeys_def)

lemma example_p4_color: "tokenValue exampleRuntime ''p-4'' ''color'' = None"
  by (simp add: tokenValue_def parseClass_def startsWith_def recordGet_def setProp_def
      SPACING_def)

lemma example_p4_margin: "tokenValue exampleRuntime ''p-4'' ''margin'' = None"
  by (simp add: tokenValue_def parseClass_def startsWith_def recordGet_def setProp_def
      SPACING_def)

lemma example_text_black_margin: "tokenValue exampleRuntime ''text-black'' ''margin'' = None"
  by (simp add: tokenValue_def parseClass_def startsWith_def recordGet_def setProp_def
      FONT_SIZES_def COLORS_def FONT_WEIGHTS_def SPACING_def objectPrototypeKeys_def)

lemma example_text_white_margin: "tokenValue exampleRuntime ''text-white'' ''margin'' = None"
  by (simp add: tokenValue_def parseClass_def startsWith_def recordGet_def setProp_def
      FONT_SIZES_def COLORS_def FONT_WEIGHTS_def SPACING_def objectPrototypeKeys_def)

theorem parseTailwindClasses_later_token_wins_witness:
  "map_of (parseTailwindClasses exampleRuntime ''text-black text-white p-4'') ''color'' =
     Some (VStr ''#ffffff'') \<and>
   map_of (parseTailwindClasses exampleRuntime ''text-black text-white p-4'') ''margin'' = None"
  using parseTailwindClasses_later_token_wins
      [of "''text-black text-white p-4''" "[''text-black'']" "''text-white''" "[''p-4'']"
        exampleRuntime "''color''" "VStr ''#ffffff''"]
    parseTailwindClasses_later_token_wins
      [of "''text-black text-white p-4''" "[]" "''''" "[]" exampleRuntime "''margin''" VUndef]
    example_tokens example_text_white example_p4_color example_p4_margin
    example_text_black_margin example_text_white_margin
  by simp

section \<open>Properties of the converter\<close>

lemma unwrapElement_tag: "unwrapElement env (Tag t, p) = Some (Tag t, p)"
  by (subst unwrapElement.simps) simp

lemma unwrapElement_step:
  "env fn p = RElem t' p' \<Longrightarrow> unwrapElement env (Comp fn, p) = unwrapElement env (t', p')"
  by (subst unwrapElement.simps) simp

lemma unwrapElement_no_element:
  "\<not> isElement (env fn p) \<Longrightarrow> unwrapElement env (Comp fn, p) = Some (Comp fn, p)"
  by (subst unwrapElement.simps) (auto simp: isElement_def split: rnode.splits)

text \<open>Where the loop ends, nothing is left to expand.\<close>

lemma unwrapElement_result:
  assumes "unwrapElement env current = Some r"
  shows "case fst r of Tag tag \<Rightarrow> True | Comp fn \<Rightarrow> \<not> isElement (env fn (snd r))"
  using assms
proof (induction rule: unwrapElement.raw_induct [rotated 1, consumes 1])
  case (1 unwrapElement env current r)
  show ?case
  proof (cases "fst current")
    case (Tag tag)
    with 1(2) show ?thesis by auto
  next
    case (Comp fn)
    show ?thesis
    proof (cases "isElement (env fn (snd current))")
      case True
      then obtain t p where e: "env fn (snd current) = RElem t p"
        by (cases "env fn (snd current)") (auto simp: isElement_def)
      from 1(2) Comp e have "unwrapElement env (t, p) = Some r" by simp
      from 1(1) [OF this] show ?thesis .
    next
      case False
      with 1(2) Comp have "r = current"
        by (cases "env fn (snd current)") (auto simp: isElement_def)
      with False Comp show ?thesis by simp
    qed
  qed
qed

text \<open>A loop that returns started at a tag, if every component renders a composite.\<close>

lemma unwrapElement_returns_from_tag:
  assumes "unwrapElement env current = Some r"
    and "\<And>name p. isComposite (env name p)"
  shows "\<exists>tag. fst current = Tag tag"
  using assms
proof (induction rule: unwrapElement.raw_induct [rotated 1, consumes 1])
  case (1 unwrapElement env current r)
  show ?case
  proof (cases "fst current")
    case (Tag tag)
    then show ?thesis by simp
  next
    case (Comp fn)
    from 1(3) [of fn "snd current"]
    obtain fn' p' where e: "env fn (snd current) = RElem (Comp fn') p'"
      by (cases "env fn (snd current)") (auto simp: isComposite_def split: etype.splits)
    from 1(2) Comp e have "unwrapElement env (Comp fn', p') = Some r" by simp
    from 1(1) [OF this 1(3)] show ?thesis by simp
  qed
qed

lemma unwrapElement_diverges:
  assumes "\<And>name p. isComposite (env name p)"
  shows "unwrapElement env (Comp fn, p) = None"
proof (cases "unwrapElement env (Comp fn, p)")
  case None
  then show ?thesis .
next
  case (Some r)
  from unwrapElement_returns_from_tag [OF Some assms] show ?thesis by simp
qed

lemma reactToIR_diverges:
  assumes "\<And>name p. isComposite (env name p)"
  shows "reactToIR depth rt env (Comp fn, p) = None"
  by (cases depth) (simp_all add: reactToIR_def unwrapElement_diverges [OF assms])

text \<open>
  The depth of the conversion functions bounds the nesting of elements and nothing else: a
  tree of primitive elements is converted as soon as the bound reaches its nesting, and a
  result does not change when the bound grows.
\<close>

lemma convertElement_returns_step:
  assumes u: "unwrapElement env element = Some (ty, props)"
    and ih: "\<And>c'. convertChildren d rt env c' (props_children props) \<noteq> None"
  shows "convertElement (Suc d) rt env c element \<noteq> None"
proof -
  let ?tw = "case props_className props of None \<Rightarrow> []
     | Some className \<Rightarrow> if className \<noteq> [] then parseTailwindClasses rt className else []"
  let ?inl = "case props_style props of None \<Rightarrow> [] | Some s \<Rightarrow> s"
  let ?merged = "mergeStyles ?tw ?inl"
  show ?thesis
  proof (cases "trackFonts ?merged c")
    case (Inl e)
    with u show ?thesis by (simp add: Let_def)
  next
    case (Inr c1)
    let ?c2 = "if getElementType ty = NodeImage \<and> truthy (getOwn (props_rest props) ''src'')
       then trackImage (getOwn (props_rest props) ''src'') c1 else c1"
    from ih [of ?c2] obtain k where
      k: "convertChildren d rt env ?c2 (props_children props) = Some k" by blast
    show ?thesis
    proof (cases k)
      case (Inl e)
      with u Inr k show ?thesis by (simp add: Let_def)
    next
      case inr: (Inr b)
      obtain ns c3 where "b = (ns, c3)" by (cases b)
      with inr u Inr k show ?thesis by (simp add: Let_def)
    qed
  qed
qed

lemma convert_returns:
  "primitiveOnly n \<Longrightarrow> nesting n \<le> depth \<Longrightarrow> convertChildren depth rt env c n \<noteq> None"
  "primitiveOnlyEach ns \<Longrightarrow> nestingEach ns \<le> depth \<Longrightarrow> convertEach depth rt env c ns \<noteq> None"
proof (induction n and ns arbitrary: depth c and depth c rule: nesting_nestingEach.induct)
  case (1 t cn st ch others)
  from "1.prems" obtain tag d where t: "t = Tag tag" and p: "primitiveOnly ch"
    and d: "depth = Suc d" and n: "nesting ch \<le> d"
    by (cases t; cases depth) auto
  have "convertChildren d rt env c' (props_children (Props cn st ch others)) \<noteq> None" for c'
    using "1.IH" [OF p n] by simp
  from convertElement_returns_step [OF unwrapElement_tag this]
  have "convertElement (Suc d) rt env c (Tag tag, Props cn st ch others) \<noteq> None" .
  then show ?case by (auto simp: t d simp del: convertElement.simps split: sum.splits)
next
  case (9 child others)
  from "9.prems" have a: "convertChildren depth rt env c child \<noteq> None"
    by (intro "9.IH"(1)) simp_all
  from "9.prems" have b: "convertEach depth rt env c1 others \<noteq> None" for c1
    by (intro "9.IH"(2)) simp_all
  from a obtain k where k: "convertChildren depth rt env c child = Some k" by blast
  show ?case
  proof (cases k)
    case (Inl e)
    with k show ?thesis by simp
  next
    case (Inr b1)
    obtain ns c1 where b1: "b1 = (ns, c1)" by (cases b1)
    from b [of c1] obtain k2 where "convertEach depth rt env c1 others = Some k2" by blast
    with k Inr b1 show ?thesis by (cases k2) auto
  qed
qed auto

lemma convert_mono:
  "convertElement depth rt env c element = Some r \<Longrightarrow> convertElement (Suc depth) rt env c element = Some r"
  "convertChildren depth rt env c child = Some rs \<Longrightarrow> convertChildren (Suc depth) rt env c child = Some rs"
  "convertEach depth rt env c children = Some rs \<Longrightarrow> convertEach (Suc depth) rt env c children = Some rs"
proof (induction depth rt env c element and depth rt env c child and depth rt env c children
    arbitrary: r and rs and rs
    rule: convertElement_convertChildren_convertEach.induct)
  case (2 depth rt env c element)
  from "2.prems" obtain ty props where u: "unwrapElement env element = Some (ty, props)"
    by (auto split: option.splits)
  let ?tw = "case props_className props of None \<Rightarrow> []
     | Some className \<Rightarrow> if className \<noteq> [] then parseTailwindClasses rt className else []"
  let ?inl = "case props_style props of None \<Rightarrow> [] | Some s \<Rightarrow> s"
  let ?merged = "mergeStyles ?tw ?inl"
  show ?case
  proof (cases "trackFonts ?merged c")
    case (Inl e)
    with "2.prems" u show ?thesis by (simp add: Let_def)
  next
    case (Inr c1)
    let ?c2 = "if getElementType ty = NodeImage \<and> truthy (getOwn (props_rest props) ''src'')
       then trackImage (getOwn (props_rest props) ''src'') c1 else c1"
    from "2.prems" u Inr obtain k where
      k: "convertChildren depth rt env ?c2 (props_children props) = Some k"
      by (auto simp: Let_def split: option.splits)
    from "2.IH" [OF u refl refl refl refl refl Inr refl k]
    have "convertChildren (Suc depth) rt env ?c2 (props_children props) = Some k" .
    with "2.prems" u Inr k show ?thesis
      by (simp add: Let_def)
  qed
next
  case (7 depth rt env c t p)
  then show ?case by (auto split: option.splits sum.splits)
next
  case (11 depth rt env c child others)
  from "11.prems" obtain k1 where k1: "convertChildren depth rt env c child = Some k1"
    by (auto split: option.splits)
  note m1 = "11.IH"(1) [OF k1]
  show ?case
  proof (cases k1)
    case (Inl e)
    with "11.prems" k1 have "rs = Inl e" by simp
    with m1 Inl show ?thesis by simp
  next
    case (Inr b)
    obtain ns c1 where b: "b = (ns, c1)" by (cases b)
    from "11.prems" k1 Inr b obtain k2 where k2: "convertEach depth rt env c1 others = Some k2"
      by (auto split: option.splits)
    from "11.IH"(2) [OF k1 Inr b [symmetric] k2]
    have "convertEach (Suc depth) rt env c1 others = Some k2" .
    with "11.prems" k1 m1 Inr b k2 show ?thesis by simp
  qed
qed auto

lemma reactToIR_returns:
  assumes "primitiveOnly (RElem t p)" and "nesting (RElem t p) \<le> depth"
  shows "reactToIR depth rt env (t, p) \<noteq> None"
proof -
  from convert_returns(1) [OF assms]
  have "convertChildren depth rt env \<lparr>ctx_fonts = [], ctx_images = []\<rparr> (RElem t p) \<noteq> None" .
  then obtain k where k: "convertElement depth rt env \<lparr>ctx_fonts = [], ctx_images = []\<rparr> (t, p) = Some k"
    by (cases "convertElement depth rt env \<lparr>ctx_fonts = [], ctx_images = []\<rparr> (t, p)")
      (simp_all del: convertElement.simps)
  show ?thesis
  proof (cases k)
    case (Inl e)
    with k show ?thesis by (simp add: reactToIR_def)
  next
    case (Inr b)
    obtain node c where "b = (node, c)" by (cases b)
    with k Inr show ?thesis by (simp add: reactToIR_def Let_def split: sum.split)
  qed
qed

lemma reactToIR_mono:
  "reactToIR depth rt env element = Some r \<Longrightarrow> reactToIR (Suc depth) rt env element = Some r"
proof -
  assume a: "reactToIR depth rt env element = Some r"
  then obtain k where k: "convertElement depth rt env \<lparr>ctx_fonts = [], ctx_images = []\<rparr> element = Some k"
    by (auto simp: reactToIR_def split: option.splits)
  from convert_mono(1) [OF k]
  have "convertElement (Suc depth) rt env \<lparr>ctx_fonts = [], ctx_images = []\<rparr> element = Some k" .
  with a k show ?thesis by (simp add: reactToIR_def del: convertElement.simps)
qed

text \<open>
  The loop returns the element at which the expansion stops, and only then.
\<close>

lemma unwrapElement_stop:
  "expandOnce env current = None \<Longrightarrow> unwrapElement env current = Some current"
  by (subst unwrapElement.simps)
    (auto simp: expandOnce_def split: etype.splits rnode.splits)

lemma unwrapElement_continue:
  "expandOnce env current = Some following \<Longrightarrow>
   unwrapElement env current = unwrapElement env following"
  by (subst unwrapElement.simps)
    (auto simp: expandOnce_def split: etype.splits rnode.splits)

lemma unwrapElement_reached:
  "expansion n env current = Some r \<Longrightarrow> expandOnce env r = None \<Longrightarrow>
   unwrapElement env current = Some r"
proof (induction n arbitrary: current)
  case 0
  then show ?case by (simp add: unwrapElement_stop)
next
  case (Suc n)
  from Suc.prems(1) obtain following where e: "expandOnce env current = Some following"
    and f: "expansion n env following = Some r"
    by (auto split: option.splits)
  from Suc.IH [OF f Suc.prems(2)] unwrapElement_continue [OF e] show ?case by simp
qed

lemma unwrapElement_reaches:
  assumes "unwrapElement env current = Some r"
  shows "\<exists>n. expansion n env current = Some r \<and> expandOnce env r = None"
  using assms
proof (induction rule: unwrapElement.raw_induct [rotated 1, consumes 1])
  case (1 unwrapElement env current r)
  show ?case
  proof (cases "expandOnce env current")
    case None
    with 1(2) have "r = current"
      by (auto simp: expandOnce_def split: etype.splits rnode.splits)
    with None have "expansion 0 env current = Some r \<and> expandOnce env r = None" by simp
    then show ?thesis by blast
  next
    case (Some following)
    with 1(2) have "unwrapElement env following = Some r"
      by (auto simp: expandOnce_def split: etype.splits rnode.splits)
    from 1(1) [OF this] obtain n where
      "expansion n env following = Some r \<and> expandOnce env r = None" by blast
    with Some have "expansion (Suc n) env current = Some r \<and> expandOnce env r = None" by simp
    then show ?thesis by blast
  qed
qed

lemma expansion_stops:
  "expansion n env current = None \<Longrightarrow>
   \<exists>m r. expansion m env current = Some r \<and> expandOnce env r = None"
proof (induction n arbitrary: current)
  case 0
  then show ?case by simp
next
  case (Suc n)
  show ?case
  proof (cases "expandOnce env current")
    case None
    then have "expansion 0 env current = Some current \<and> expandOnce env current = None" by simp
    then show ?thesis by blast
  next
    case (Some following)
    with Suc.prems have "expansion n env following = None" by simp
    from Suc.IH [OF this] obtain m r where
      "expansion m env following = Some r \<and> expandOnce env r = None" by blast
    with Some have "expansion (Suc m) env current = Some r \<and> expandOnce env r = None" by simp
    then show ?thesis by blast
  qed
qed

lemma expansion_past_stop:
  "expansion m env current = Some r \<Longrightarrow> expandOnce env r = None \<Longrightarrow>
   expansion (Suc m) env current = None"
proof (induction m arbitrary: current)
  case 0
  then show ?case by simp
next
  case (Suc m)
  from Suc.prems(1) obtain following where e: "expandOnce env current = Some following"
    and f: "expansion m env following = Some r"
    by (auto split: option.splits)
  from Suc.IH [OF f Suc.prems(2)] e show ?case by simp
qed

lemma unwrapElement_None_iff:
  "unwrapElement env current = None \<longleftrightarrow> (\<forall>n. expansion n env current \<noteq> None)"
proof
  assume a: "unwrapElement env current = None"
  show "\<forall>n. expansion n env current \<noteq> None"
  proof (intro allI notI)
    fix n assume "expansion n env current = None"
    from expansion_stops [OF this] obtain m r where
      "expansion m env current = Some r" "expandOnce env r = None" by blast
    from unwrapElement_reached [OF this] a show False by simp
  qed
next
  assume a: "\<forall>n. expansion n env current \<noteq> None"
  show "unwrapElement env current = None"
  proof (cases "unwrapElement env current")
    case None
    then show ?thesis .
  next
    case (Some r)
    from unwrapElement_reaches [OF Some] obtain n where
      "expansion n env current = Some r" "expandOnce env r = None" by blast
    from expansion_past_stop [OF this] a show ?thesis by blast
  qed
qed

lemma reactToIR_unwrap_None:
  "unwrapElement env element = None \<Longrightarrow> reactToIR depth rt env element = None"
  by (cases depth) (simp_all add: reactToIR_def)

lemma expansion_withLoop:
  "expansion n withLoop (Comp ''Loop'', p) = Some (Comp ''Loop'', p)"
  by (induction n) (simp_all add: expandOnce_def withLoop_def)

text \<open>
  Claim C1, as amended. The unwrap step calls a composite component on the props it
  received and goes on with the element returned, until it reaches a primitive element
  or a component that returns no element, and returns the element reached. There is no
  depth cap and no error for runaway expansion: the step returns exactly when the
  expansion reaches such a point, after however many calls, and when the expansion never
  reaches one the step never returns, so that the conversion of the element returns
  neither a document nor an error, however deep it may follow the nesting of elements.
\<close>

theorem unwrapElement_has_no_depth_cap:
  "unwrapElement env (Tag t, p) = Some (Tag t, p) \<and>
   (env fn p = RElem t' p' \<longrightarrow> unwrapElement env (Comp fn, p) = unwrapElement env (t', p')) \<and>
   (\<not> isElement (env fn p) \<longrightarrow> unwrapElement env (Comp fn, p) = Some (Comp fn, p)) \<and>
   (unwrapElement env current = Some r \<longrightarrow>
      (case fst r of Tag tag \<Rightarrow> True | Comp g \<Rightarrow> \<not> isElement (env g (snd r)))) \<and>
   (unwrapElement env current = Some r \<longleftrightarrow>
      (\<exists>n. expansion n env current = Some r \<and> expandOnce env r = None)) \<and>
   (unwrapElement env current = None \<longleftrightarrow> (\<forall>n. expansion n env current \<noteq> None)) \<and>
   ((\<forall>n. expansion n env current \<noteq> None) \<longrightarrow>
      unwrapElement env current = None \<and> (\<forall>depth. reactToIR depth rt env current = None))"
proof (intro conjI impI allI)
  show "unwrapElement env (Tag t, p) = Some (Tag t, p)"
    by (rule unwrapElement_tag)
next
  assume "env fn p = RElem t' p'"
  then show "unwrapElement env (Comp fn, p) = unwrapElement env (t', p')"
    by (rule unwrapElement_step)
next
  assume "\<not> isElement (env fn p)"
  then show "unwrapElement env (Comp fn, p) = Some (Comp fn, p)"
    by (rule unwrapElement_no_element)
next
  assume "unwrapElement env current = Some r"
  then show "case fst r of Tag tag \<Rightarrow> True | Comp g \<Rightarrow> \<not> isElement (env g (snd r))"
    by (rule unwrapElement_result)
next
  show "unwrapElement env current = Some r \<longleftrightarrow>
      (\<exists>n. expansion n env current = Some r \<and> expandOnce env r = None)"
  proof
    assume "unwrapElement env current = Some r"
    then show "\<exists>n. expansion n env current = Some r \<and> expandOnce env r = None"
      by (rule unwrapElement_reaches)
  next
    assume "\<exists>n. expansion n env current = Some r \<and> expandOnce env r = None"
    then obtain n where "expansion n env current = Some r" "expandOnce env r = None" by blast
    then show "unwrapElement env current = Some r" by (rule unwrapElement_reached)
  qed
next
  show "unwrapElement env current = None \<longleftrightarrow> (\<forall>n. expansion n env current \<noteq> None)"
    by (rule unwrapElement_None_iff)
next
  assume a: "\<forall>n. expansion n env current \<noteq> None"
  then show u: "unwrapElement env current = None"
    by (rule unwrapElement_None_iff [THEN iffD2])
  fix depth
  from u show "reactToIR depth rt env current = None" by (rule reactToIR_unwrap_None)
qed

theorem unwrapElement_has_no_depth_cap_witness:
  "unwrapElement withLoop (Tag TEXT, Props None None (RStr ''Hello'') [(''wrap'', VBool True)]) =
     Some (Tag TEXT, Props None None (RStr ''Hello'') [(''wrap'', VBool True)]) \<and>
   unwrapElement withLoop (Comp ''Text'', Props None None (RStr ''Hello'') []) =
     Some (Tag TEXT, Props None None (RStr ''Hello'') [(''wrap'', VBool True)]) \<and>
   unwrapElement withLoop (Comp ''Other'', Props None None RNull []) =
     Some (Comp ''Other'', Props None None RNull []) \<and>
   \<not> isElement (withLoop ''Other'' (Props None None RNull [])) \<and>
   unwrapElement withLoop (Comp ''Loop'', Props None None RNull []) = None \<and>
   (\<forall>depth. reactToIR depth exampleRuntime withLoop (Comp ''Loop'', Props None None RNull []) =
      None)"
proof -
  let ?p = "Props None None (RStr ''Hello'') []"
  let ?q = "Props None None (RStr ''Hello'') [(''wrap'', VBool True)]"
  let ?n = "Props None None RNull []"
  have e: "withLoop ''Text'' ?p = RElem (Tag TEXT) ?q"
    by code_simp
  have o: "\<not> isElement (withLoop ''Other'' ?n)"
    by code_simp
  have x: "\<exists>n. expansion n withLoop (Comp ''Text'', ?p) = Some (Tag TEXT, ?q) \<and>
      expandOnce withLoop (Tag TEXT, ?q) = None"
  proof
    show "expansion 1 withLoop (Comp ''Text'', ?p) = Some (Tag TEXT, ?q) \<and>
      expandOnce withLoop (Tag TEXT, ?q) = None"
      by code_simp
  qed
  have l: "\<forall>n. expansion n withLoop (Comp ''Loop'', ?n) \<noteq> None"
    by (simp add: expansion_withLoop)
  note tag = unwrapElement_has_no_depth_cap
      [where env = withLoop and t = TEXT and p = ?q]
  note step = unwrapElement_has_no_depth_cap
      [where env = withLoop and fn = "''Text''" and p = ?p and t' = "Tag TEXT" and p' = ?q]
  note other = unwrapElement_has_no_depth_cap
      [where env = withLoop and fn = "''Other''" and p = ?n
        and current = "(Comp ''Other'', ?n)" and r = "(Comp ''Other'', ?n)"]
  note reach = unwrapElement_has_no_depth_cap
      [where env = withLoop and current = "(Comp ''Text'', ?p)" and r = "(Tag TEXT, ?q)"]
  note loop = unwrapElement_has_no_depth_cap
      [where env = withLoop and current = "(Comp ''Loop'', ?n)" and rt = exampleRuntime]
  have a: "unwrapElement withLoop (Tag TEXT, ?q) = Some (Tag TEXT, ?q)"
    by (rule tag [THEN conjunct1])
  have b: "unwrapElement withLoop (Comp ''Text'', ?p) = unwrapElement withLoop (Tag TEXT, ?q)"
    by (rule step [THEN conjunct2, THEN conjunct1, THEN mp, OF e])
  have c: "unwrapElement withLoop (Comp ''Other'', ?n) = Some (Comp ''Other'', ?n)"
    by (rule other [THEN conjunct2, THEN conjunct2, THEN conjunct1, THEN mp, OF o])
  have d: "case fst (Comp ''Other'', ?n) of Tag tag \<Rightarrow> True
      | Comp g \<Rightarrow> \<not> isElement (withLoop g (snd (Comp ''Other'', ?n)))"
    by (rule other [THEN conjunct2, THEN conjunct2, THEN conjunct2, THEN conjunct1, THEN mp,
          OF c])
  have f: "unwrapElement withLoop (Comp ''Text'', ?p) = Some (Tag TEXT, ?q)"
    by (rule reach [THEN conjunct2, THEN conjunct2, THEN conjunct2, THEN conjunct2,
          THEN conjunct1, THEN iffD2, OF x])
  have g: "unwrapElement withLoop (Comp ''Loop'', ?n) = None \<and>
      (\<forall>depth. reactToIR depth exampleRuntime withLoop (Comp ''Loop'', ?n) = None)"
    by (rule loop [THEN conjunct2, THEN conjunct2, THEN conjunct2, THEN conjunct2,
          THEN conjunct2, THEN conjunct2, THEN mp, OF l])
  from a b c d f g show ?thesis by simp
qed

text \<open>
  The claim as stated fails on a composite that always returns a composite: unwrapping
  it never returns, and the conversion yields no result and no error.
\<close>

theorem unwrapElement_self_reference_counterexample:
  "unwrapElement loopForever (Comp ''Loop'', Props None None RNull []) = None \<and>
   reactToIR 100 exampleRuntime loopForever (Comp ''Loop'', Props None None RNull []) = None"
proof -
  have l: "\<And>name q. isComposite (loopForever name q)"
    by (simp add: loopForever_def isComposite_def)
  show ?thesis
    using unwrapElement_diverges [OF l] reactToIR_diverges [OF l] by simp
qed

lemma map_of_rev_distinct: "distinct (map fst xs) \<Longrightarrow> map_of (rev xs) = map_of xs"
proof (induction xs)
  case Nil
  show ?case by simp
next
  case (Cons a xs)
  obtain k v where a: "a = (k, v)" by (cases a)
  from Cons.prems a have "map_of xs k = None" by (simp add: map_of_eq_None_iff)
  with Cons show ?case
    by (auto simp: a map_add_def fun_eq_iff split: option.split)
qed

lemma map_of_assignAll: "map_of (assignAll target source) = map_of target ++ map_of source"
  by (simp add: assignAll_def ownEntries_def map_of_fold_setProp map_of_rev_distinct
      distinct_clearjunk map_of_clearjunk)

lemma map_of_mergeStyles:
  "map_of (mergeStyles tailwindStyle inlineStyle) = map_of tailwindStyle ++ map_of inlineStyle"
  by (simp add: mergeStyles_def map_of_assignAll)

text \<open>
  Claim C4. For every class string and every explicit style map, a property key that
  the explicit style sets has the explicit style's value in the merged style, whatever the
  classes set; and the style of the node that \<open>convertElement\<close> builds for an element with
  both is this merged style, less its null and undefined values.
\<close>

theorem mergeStyles_explicit_wins:
  "(map_of inlineStyle p = Some b \<longrightarrow>
      map_of (mergeStyles (parseTailwindClasses rt className) inlineStyle) p = Some b) \<and>
   (convertElement (Suc depth) rt env context element = Some (Inr (node, context')) \<and>
    unwrapElement env element = Some (type, props) \<and>
    props_className props = Some className \<and> className \<noteq> [] \<and>
    props_style props = Some inlineStyle
      \<longrightarrow> node_style node =
            convertStyle (mergeStyles (parseTailwindClasses rt className) inlineStyle))"
  by (auto simp: map_of_mergeStyles Let_def split: sum.splits option.splits)

theorem mergeStyles_explicit_wins_witness:
  "map_of (parseTailwindClasses exampleRuntime ''text-black'') ''color'' =
     Some (VStr ''#000000'') \<and>
   map_of (mergeStyles (parseTailwindClasses exampleRuntime ''text-black'')
             [(''color'', VStr ''#ff0000'')]) ''color'' = Some (VStr ''#ff0000'') \<and>
   node_style (IRNode NodeText [] [(''color'', VStr ''#ff0000'')] [textLeaf ''Red'']) =
     convertStyle (mergeStyles (parseTailwindClasses exampleRuntime ''text-black'')
                     [(''color'', VStr ''#ff0000'')])"
proof -
  let ?props = "Props (Some ''text-black'') (Some [(''color'', VStr ''#ff0000'')]) (RStr ''Red'') []"
  let ?node = "IRNode NodeText [] [(''color'', VStr ''#ff0000'')] [textLeaf ''Red'']"
  have c: "convertElement (Suc 0) exampleRuntime paperflowComponents
             \<lparr>ctx_fonts = [], ctx_images = []\<rparr> (Tag TEXT, ?props) =
           Some (Inr (?node, \<lparr>ctx_fonts = [], ctx_images = []\<rparr>))"
    by code_simp
  have u: "unwrapElement paperflowComponents (Tag TEXT, ?props) = Some (Tag TEXT, ?props)"
    by (rule unwrapElement_tag)
  have t: "map_of (parseTailwindClasses exampleRuntime ''text-black'') ''color'' =
      Some (VStr ''#000000'')"
    by code_simp
  note inst = mergeStyles_explicit_wins
      [of "[(''color'', VStr ''#ff0000'')]" "''color''" "VStr ''#ff0000''" exampleRuntime
        "''text-black''" 0 paperflowComponents "\<lparr>ctx_fonts = [], ctx_images = []\<rparr>"
        "(Tag TEXT, ?props)" ?node "\<lparr>ctx_fonts = [], ctx_images = []\<rparr>" "Tag TEXT" ?props]
  have m: "map_of [(''color'', VStr ''#ff0000'')] ''color'' = Some (VStr ''#ff0000'')"
    by simp
  have first: "map_of (mergeStyles (parseTailwindClasses exampleRuntime ''text-black'')
             [(''color'', VStr ''#ff0000'')]) ''color'' = Some (VStr ''#ff0000'')"
    by (rule inst [THEN conjunct1, THEN mp, OF m])
  have h: "convertElement (Suc 0) exampleRuntime paperflowComponents
        \<lparr>ctx_fonts = [], ctx_images = []\<rparr> (Tag TEXT, ?props) =
        Some (Inr (?node, \<lparr>ctx_fonts = [], ctx_images = []\<rparr>)) \<and>
      unwrapElement paperflowComponents (Tag TEXT, ?props) = Some (Tag TEXT, ?props) \<and>
      props_className ?props = Some ''text-black'' \<and> ''text-black'' \<noteq> [] \<and>
      props_style ?props = Some [(''color'', VStr ''#ff0000'')]"
    using c u by simp
  have second: "node_style ?node =
      convertStyle (mergeStyles (parseTailwindClasses exampleRuntime ''text-black'')
                      [(''color'', VStr ''#ff0000'')])"
    by (rule inst [THEN conjunct2, THEN mp, OF h])
  from t first second show ?thesis by (intro conjI)
qed

lemma unwrapElement_Document:
  "unwrapElement paperflowComponents (Comp ''Document'', p) = Some (Tag DOCUMENT, p)"
  by (simp add: unwrapElement_step [of paperflowComponents "''Document''" p "Tag DOCUMENT" p]
      unwrapElement_tag paperflowComponents_def Document_def)

lemma unwrapElement_Page:
  "unwrapElement paperflowComponents (Comp ''Page'', p) =
   Some (case Page p of RElem t q \<Rightarrow> (t, q))"
  by (simp add: unwrapElement_step [of paperflowComponents "''Page''" p "Tag PAGE"
        "case Page p of RElem t q \<Rightarrow> q"]
      unwrapElement_tag paperflowComponents_def Page_def)

lemma unwrapElement_Text:
  "unwrapElement paperflowComponents (Comp ''Text'', p) =
   Some (case Text p of RElem t q \<Rightarrow> (t, q))"
  by (simp add: unwrapElement_step [of paperflowComponents "''Text''" p "Tag TEXT"
        "case Text p of RElem t q \<Rightarrow> q"]
      unwrapElement_tag paperflowComponents_def Text_def)

lemma reactToIR_helloTree:
  "reactToIR (Suc (Suc (Suc depth))) rt paperflowComponents helloTree =
   Some (Inr \<lparr>version = 1, pages = [helloPage], fonts = [defaultFontUsage], images = [],
              metadata = None\<rparr>)"
  by (simp add: reactToIR_def helloTree_def unwrapElement_Document unwrapElement_Page
      unwrapElement_Text Page_def Text_def mergeStyles_def assignAll_def ownEntries_def
      trackFonts_def getOwn_def orElse_def nullish_def getElementType_def DOCUMENT_def
      PAGE_def TEXT_def VIEW_def IMAGE_def LINK_def extractProps_def convertStyle_def
      setProp_def withDefault_def omitKeys_def textLeaf_def convertToPage_def
      resolvePageSize_def recordGet_def PageSizes_def dimensions_def normalizeMargin_def
      isNumber_def uniformMargin_def helloPage_def Let_def)

text \<open>
  Claim C5, as amended. Converting \<^verbatim>\<open><Document><Page><Text>Hello</Text></Page></Document>\<close>
  yields an IRDocument whose pages list has length exactly 1, and whose single page has
  exactly one child node. That node is of kind text and carries no content of its own:
  the content \<^verbatim>\<open>Hello\<close> is carried by its only child, a text leaf.
\<close>

theorem reactToIR_hello_has_nested_text_leaf:
  "3 \<le> depth \<Longrightarrow>
   (\<exists>doc. reactToIR depth rt paperflowComponents helloTree = Some (Inr doc) \<and>
      length (pages doc) = 1 \<and>
      map page_children (pages doc) =
        [[IRNode NodeText [(''wrap'', VBool True)] []
            [IRNode NodeText [(''content'', VStr ''Hello'')] [] []]]])"
proof -
  assume "3 \<le> depth"
  then obtain d where d: "depth = Suc (Suc (Suc d))"
    by (metis Suc_le_D numeral_3_eq_3 Suc_le_mono)
  show ?thesis
    unfolding d reactToIR_helloTree by (simp add: helloPage_def)
qed

theorem reactToIR_hello_has_nested_text_leaf_witness:
  "(3::nat) \<le> 3 \<and>
   (\<exists>doc. reactToIR 3 exampleRuntime paperflowComponents helloTree = Some (Inr doc) \<and>
      length (pages doc) = 1 \<and>
      map page_children (pages doc) =
        [[IRNode NodeText [(''wrap'', VBool True)] []
            [IRNode NodeText [(''content'', VStr ''Hello'')] [] []]]])"
  using reactToIR_hello_has_nested_text_leaf [of 3 exampleRuntime] by simp

text \<open>
  The claim as stated fails: the single child of the page is of kind text, but its
  property bag has no content.
\<close>

theorem reactToIR_hello_content_counterexample:
  "(case reactToIR 3 exampleRuntime paperflowComponents helloTree of
      Some (Inr doc) \<Rightarrow>
        map (\<lambda>page. map (\<lambda>child. (node_type child, map_of (node_props child) ''content''))
                      (page_children page)) (pages doc)
    | _ \<Rightarrow> []) = [[(NodeText, None)]]"
  by code_simp

text \<open>
  Claim C2, at the input that breaks it. Two text nodes declare the families \<^verbatim>\<open>Inter\<close>
  and \<^verbatim>\<open>inter\<close>: the font-usage list that the tree conversion builds has one entry for
  each spelling, while \<open>detectFontsFromIR\<close>, run on the same document, normalizes the key
  and has the single entry \<^verbatim>\<open>inter\<close>.
\<close>

theorem reactToIR_font_keys_keep_case:
  "(case reactToIR 3 exampleRuntime paperflowComponents caseTree of
      Some (Inr doc) \<Rightarrow>
        Some (map family (fonts doc), map_sum id (map family) (detectFontsFromIR doc))
    | _ \<Rightarrow> None) = Some ([''Inter'', ''inter''], Inr [''inter''])"
  by code_simp

section \<open>Properties of the font loader\<close>

lemma setAdd_nonempty: "setAdd xs v \<noteq> []"
  by (auto simp: setAdd_def)

lemma map_entry_fresh:
  "map_of m k = None \<Longrightarrow> AList.map_entry k g (m @ [(k, e)]) = m @ [(k, g e)]"
  by (induction m) (auto split: if_splits)

lemma map_entry_all:
  "list_all (\<lambda>(f, v). Q v) m \<Longrightarrow> (\<And>v. Q v \<Longrightarrow> Q (g v)) \<Longrightarrow>
   list_all (\<lambda>(f, v). Q v) (AList.map_entry k g m)"
  by (induction m) auto

lemma populated_add_fresh:
  "populated m \<Longrightarrow> map_of m k = None \<Longrightarrow>
   populated (AList.map_entry k (\<lambda>(ws, ss). (setAdd ws w, setAdd ss s)) (m @ [(k, ([], []))]))"
  by (simp add: map_entry_fresh populated_def setAdd_nonempty)

lemma populated_add_known:
  assumes "populated m"
  shows "populated (AList.map_entry k (\<lambda>(ws, ss). (setAdd ws w, setAdd ss s)) m)"
proof -
  have "list_all (\<lambda>(f, v). (\<lambda>(ws, ss). ws \<noteq> [] \<and> ss \<noteq> []) v)
          (AList.map_entry k (\<lambda>(ws, ss). (setAdd ws w, setAdd ss s)) m)"
    using assms by (intro map_entry_all) (auto simp: populated_def setAdd_nonempty)
  then show ?thesis by (simp add: populated_def)
qed

lemma noteFont_populated:
  "noteFont style m = Inr m' \<Longrightarrow> populated m \<Longrightarrow> populated m'"
  unfolding noteFont_def Let_def
  by (auto simp: populated_add_fresh populated_add_known split: if_splits jsval.splits sum.splits)

lemma walk_populated:
  "walk node m = Inr m' \<Longrightarrow> populated m \<Longrightarrow> populated m'"
  "walkEach nodes m = Inr m' \<Longrightarrow> populated m \<Longrightarrow> populated m'"
proof (induction node m and nodes m arbitrary: m' and m' rule: walk_walkEach.induct)
  case (1 type props style children fontMap)
  from 1(2) obtain m2 where m2: "noteFont style fontMap = Inr m2"
    and w: "walkEach children m2 = Inr m'"
    by (auto split: sum.splits)
  from noteFont_populated [OF m2 1(3)] have "populated m2" .
  from 1(1) [OF m2 w this] show ?case .
next
  case (2 fontMap)
  then show ?case by simp
next
  case (3 child others fontMap)
  then show ?case by (auto split: sum.splits)
qed

lemma walkPages_populated:
  "walkPages ps m = Inr m' \<Longrightarrow> populated m \<Longrightarrow> populated m'"
  by (induction ps arbitrary: m) (auto split: sum.splits dest: walk_populated(2))

lemma length_insertNumeric: "length (insertNumeric x ys) = Suc (length ys)"
  by (induction ys) auto

lemma length_sortNumeric_aux:
  "length (foldl (\<lambda>sorted x. insertNumeric x sorted) acc xs) = length acc + length xs"
  by (induction xs arbitrary: acc) (auto simp: length_insertNumeric)

lemma sortNumeric_nonempty: "xs \<noteq> [] \<Longrightarrow> sortNumeric xs \<noteq> []"
  using length_sortNumeric_aux [of "[]" xs] by (auto simp: sortNumeric_def)

lemma detectFontsFromIR_populated:
  assumes "detectFontsFromIR ir = Inr usage"
  shows "usage \<noteq> [] \<and> list_all (\<lambda>u. weights u \<noteq> [] \<and> styles u \<noteq> []) usage"
proof -
  from assms obtain m where m: "walkPages (pages ir) [] = Inr m"
    and u: "usage =
        map (\<lambda>(fam, ws, ss). \<lparr>family = fam, weights = sortNumeric ws, styles = ss\<rparr>)
          (if m = [] then [(normalizeFamily DEFAULT_FONT, ([VNum 400], [VStr ''normal'']))]
           else m)"
    by (auto simp: detectFontsFromIR_def Let_def split: sum.splits)
  from walkPages_populated [OF m] have "populated m" by (simp add: populated_def)
  then have "populated
      (if m = [] then [(normalizeFamily DEFAULT_FONT, ([VNum 400], [VStr ''normal'']))] else m)"
    by (simp add: populated_def)
  then show ?thesis
    unfolding u populated_def
    by (auto simp: list_all_iff sortNumeric_nonempty split: if_splits)
qed

lemma fontRequests_nonempty:
  "usage \<noteq> [] \<Longrightarrow> list_all (\<lambda>u. weights u \<noteq> [] \<and> styles u \<noteq> []) usage \<Longrightarrow>
   fontRequests usage \<noteq> []"
  by (cases usage) (auto simp: fontRequests_def)

lemma split_results:
  "concat (map (\<lambda>r. case r of Inr font \<Rightarrow> [font] | Inl e \<Rightarrow> []) results) =
     map projr (filter (\<lambda>r. \<not> isl r) results)"
  "concat (map (\<lambda>r. case r of Inl e \<Rightarrow> [e] | Inr font \<Rightarrow> []) results) =
     map projl (filter isl results)"
  by (induction results) (auto split: sum.splits)

lemma set_requests:
  "set (map (\<lambda>(fam, weight, style). f fam weight style)
     [(family u, weight, style). u \<leftarrow> usage, weight \<leftarrow> weights u, style \<leftarrow> styles u]) =
   {f (family u) weight style |u weight style.
      u \<in> set usage \<and> weight \<in> set (weights u) \<and> style \<in> set (styles u)}"
  by (auto simp: image_iff) blast+

text \<open>
  Claim C3. The usage manifest that bulk font resolution works from is never empty, and
  none of its entries lacks a weight or a style. \<open>loadFontsForDocument\<close> makes one
  \<open>loadFont\<close> request for every style of every weight of every family of the manifest, in
  this order and no other request, and settles them all: if at least one succeeds it
  returns exactly the fonts of the successful requests, in order and without error, while
  if every request fails it throws the failure of the first request, which is the one for
  the first family, its first weight and its first style.
\<close>

theorem loadFontsForDocument_settles_all:
  "detectFontsFromIR ir = Inr usage \<Longrightarrow>
   reqs = [(family u, weight, style).
                 u \<leftarrow> usage, weight \<leftarrow> weights u, style \<leftarrow> styles u] \<Longrightarrow>
   results = map (\<lambda>(fam, weight, style). fst (loadFont rt st fam weight style)) reqs \<Longrightarrow>
   usage \<noteq> [] \<and> list_all (\<lambda>u. weights u \<noteq> [] \<and> styles u \<noteq> []) usage \<and> reqs \<noteq> [] \<and>
   hd reqs = (family (hd usage), hd (weights (hd usage)), hd (styles (hd usage))) \<and>
   set results =
     {fst (loadFont rt st (family u) weight style) |u weight style.
        u \<in> set usage \<and> weight \<in> set (weights u) \<and> style \<in> set (styles u)} \<and>
   (list_ex (\<lambda>r. \<not> isl r) results \<longrightarrow>
      fst (loadFontsForDocument rt st ir) = Inr (map projr (filter (\<lambda>r. \<not> isl r) results))) \<and>
   (list_all isl results \<longrightarrow> fst (loadFontsForDocument rt st ir) = Inl (projl (hd results)))"
proof (intro conjI impI)
  assume d: "detectFontsFromIR ir = Inr usage"
    and q: "reqs = [(family u, weight, style).
                 u \<leftarrow> usage, weight \<leftarrow> weights u, style \<leftarrow> styles u]"
    and r: "results = map (\<lambda>(fam, weight, style). fst (loadFont rt st fam weight style)) reqs"
  from q have q': "reqs = fontRequests usage" by (simp add: fontRequests_def)
  from r q' have r': "results = settleAll rt st (fontRequests usage)" by (simp add: settleAll_def)
  from detectFontsFromIR_populated [OF d] show u: "usage \<noteq> []"
    and p: "list_all (\<lambda>u. weights u \<noteq> [] \<and> styles u \<noteq> []) usage" by simp_all
  from u p show ne: "reqs \<noteq> []"
    by (simp add: q' fontRequests_nonempty)
  from u p show "hd reqs = (family (hd usage), hd (weights (hd usage)), hd (styles (hd usage)))"
    by (cases usage; cases "weights (hd usage)"; cases "styles (hd usage)") (auto simp: q)
  show "set results =
     {fst (loadFont rt st (family u) weight style) |u weight style.
        u \<in> set usage \<and> weight \<in> set (weights u) \<and> style \<in> set (styles u)}"
    unfolding r q by (rule set_requests)
  have rne: "results \<noteq> []" using ne by (simp add: r)
  { assume "list_ex (\<lambda>r. \<not> isl r) results"
    then have "filter (\<lambda>r. \<not> isl r) results \<noteq> []"
      by (auto simp: list_ex_iff filter_empty_conv)
    then show "fst (loadFontsForDocument rt st ir) =
        Inr (map projr (filter (\<lambda>r. \<not> isl r) results))"
      by (simp add: loadFontsForDocument_def d Let_def split_results r' [symmetric]
          split: list.splits)
  }
  { assume a: "list_all isl results"
    then have f: "filter (\<lambda>r. \<not> isl r) results = []" "filter isl results = results"
      by (auto simp: list_all_iff filter_empty_conv filter_id_conv)
    with rne show "fst (loadFontsForDocument rt st ir) = Inl (projl (hd results))"
      by (cases results)
        (simp_all add: loadFontsForDocument_def d Let_def split_results r' [symmetric]
          split: list.splits)
  }
qed

theorem loadFontsForDocument_settles_all_witness:
  "fst (loadFontsForDocument exampleRuntime bothRegistered twoFamiliesDocument) =
     Inr [interFont, robotoFont] \<and>
   fst (loadFontsForDocument exampleRuntime interRegistered twoFamiliesDocument) =
     Inr [interFont] \<and>
   fst (loadFontsForDocument exampleRuntime interByUrl twoFamiliesDocument) = Inl TypeError"
proof -
  let ?usage = "[defaultUsage,
    \<lparr>family = ''roboto'', weights = [VNum 400], styles = [VStr ''normal'']\<rparr>]"
  let ?reqs = "[(''inter'', VNum 400, VStr ''normal''), (''roboto'', VNum 400, VStr ''normal'')]"
  have d: "detectFontsFromIR twoFamiliesDocument = Inr ?usage"
    by code_simp
  have q: "?reqs = [(family u, weight, style).
      u \<leftarrow> ?usage, weight \<leftarrow> weights u, style \<leftarrow> styles u]"
    by (simp add: defaultUsage_def)
  have r0: "[Inr interFont, Inr robotoFont] =
      map (\<lambda>(fam, weight, style). fst (loadFont exampleRuntime bothRegistered fam weight style))
        ?reqs"
    by code_simp
  have r1: "[Inr interFont, Inl (PaperFlowError FONT_LOAD_FAILED)] =
      map (\<lambda>(fam, weight, style). fst (loadFont exampleRuntime interRegistered fam weight style))
        ?reqs"
    by code_simp
  have r2: "[Inl TypeError, Inl (PaperFlowError FONT_LOAD_FAILED)] =
      map (\<lambda>(fam, weight, style). fst (loadFont exampleRuntime interByUrl fam weight style))
        ?reqs"
    by code_simp
  from loadFontsForDocument_settles_all [OF d q r0]
    loadFontsForDocument_settles_all [OF d q r1]
    loadFontsForDocument_settles_all [OF d q r2]
  show ?thesis by simp
qed


















end
